theory Spec2Isabelle
  imports Complex_Main "HOL-Library.Sublist"
begin

section \<open>Python values\<close>

text \<open>
  The program is one Python module, \<^verbatim>\<open>theapplewiki_api.py\<close>. Its values are
  what \<^verbatim>\<open>json.load\<close> produces and what the command line supplies: \<^verbatim>\<open>None\<close>,
  booleans, numbers, strings, lists and dicts. A dict keeps its insertion order, so it
  is a list of pairs (with distinct keys in every dict Python can build). Strings are
  lists of characters. Floats carry their value only; the program never computes with
  one read from JSON.
\<close>

datatype json =
    JNull
  | JBool bool
  | JInt int
  | JFloat real
  | JStr string
  | JArr "json list"
  | JObj "(string \<times> json) list"

text \<open>The exceptions that can leave a function of the module.\<close>

datatype py_exn =
    AttributeError
  | TypeError
  | KeyError
  | IndexError
  | JSONDecodeError
  | FileNotFoundError
  | IsADirectoryError
  | OSError
  | SystemExit

text \<open>Python's truth value of an object (\<^verbatim>\<open>if x:\<close>, \<^verbatim>\<open>not x\<close>, \<^verbatim>\<open>a and b\<close>).\<close>

fun truthy :: "json \<Rightarrow> bool" where
  "truthy JNull = False"
| "truthy (JBool b) = b"
| "truthy (JInt n) = (n \<noteq> 0)"
| "truthy (JFloat x) = (x \<noteq> 0)"
| "truthy (JStr s) = (s \<noteq> [])"
| "truthy (JArr xs) = (xs \<noteq> [])"
| "truthy (JObj kvs) = (kvs \<noteq> [])"

text \<open>
  An argument that is \<^verbatim>\<open>None\<close> or a \<^verbatim>\<open>str\<close> (what \<^verbatim>\<open>argparse\<close> and the bulk
  parser hand over) is a \<open>string option\<close>; \<open>given\<close> is its truth value and \<open>opt_json\<close>
  the same object seen as a value.
\<close>

definition given :: "string option \<Rightarrow> bool" where
  "given x = (case x of None \<Rightarrow> False | Some s \<Rightarrow> s \<noteq> [])"

definition opt_json :: "string option \<Rightarrow> json" where
  "opt_json x = (case x of None \<Rightarrow> JNull | Some s \<Rightarrow> JStr s)"

section \<open>The environment\<close>

text \<open>
  What the module calls but does not define is a parameter of the model:
  \<^item> \<open>py_repr\<close>: \<^verbatim>\<open>str()\<close> of a number, list or dict inside an f-string;
  \<^item> \<open>json_dump\<close>: the text \<^verbatim>\<open>json.dump(data, f, separators=(",", ":"))\<close> writes;
  \<^item> \<open>json_load\<close>: \<^verbatim>\<open>json.load(f)\<close> on a file's text, a value or an exception;
  \<^item> \<open>urlopen_json\<close>: the outcome of the guarded block
    \<^verbatim>\<open>with urllib.request.urlopen(req, timeout=15) as r: data = json.load(r)\<close>
    for a URL: \<open>Inl msg\<close> when an \<^verbatim>\<open>Exception\<close> with text \<open>msg\<close> was raised (network
    error, timeout, HTTP error status, body that is not JSON), \<open>Inr data\<close> otherwise;
  \<^item> \<open>can_open_w\<close>: whether the operating system lets \<^verbatim>\<open>open(path, "w")\<close> create or
    truncate a file at a path that is not a directory (the parent exists, permissions,
    name length).
\<close>

record env =
  py_repr :: "json \<Rightarrow> string"
  json_dump :: "json \<Rightarrow> string"
  json_load :: "string \<Rightarrow> py_exn + json"
  urlopen_json :: "string \<Rightarrow> string + json"
  can_open_w :: "string \<Rightarrow> bool"

text \<open>\<^verbatim>\<open>f"{x}"\<close>: a string is inserted as it is.\<close>

definition py_str :: "env \<Rightarrow> json \<Rightarrow> string" where
  "py_str e x =
     (case x of
        JStr s \<Rightarrow> s
      | JNull \<Rightarrow> ''None''
      | JBool b \<Rightarrow> (if b then ''True'' else ''False'')
      | _ \<Rightarrow> py_repr e x)"

section \<open>String primitives\<close>

text \<open>\<^verbatim>\<open>s.replace(old, new)\<close>: every non-overlapping occurrence, from the left.\<close>

function py_replace :: "string \<Rightarrow> string \<Rightarrow> string \<Rightarrow> string" where
  "py_replace old new [] = (if old = [] then new else [])"
| "py_replace old new (c # cs) =
     (if old = [] then new @ c # py_replace old new cs
      else if prefix old (c # cs)
        then new @ py_replace old new (drop (length old) (c # cs))
      else c # py_replace old new cs)"
  by pat_completeness auto
termination
  by (relation "measure (\<lambda>(old, new, s). length s)") auto

text \<open>\<^verbatim>\<open>s.split(sep)\<close> for a one-character separator.\<close>

function py_split :: "char \<Rightarrow> string \<Rightarrow> string list" where
  "py_split sep s =
     (case dropWhile (\<lambda>c. c \<noteq> sep) s of
        [] \<Rightarrow> [s]
      | _ # rest \<Rightarrow> takeWhile (\<lambda>c. c \<noteq> sep) s # py_split sep rest)"
  by pat_completeness auto
termination
proof (relation "measure (\<lambda>(sep, s). length s)")
  show "wf (measure (\<lambda>(sep, s). length s))" by simp
next
  fix sep :: char and s :: string and x rest
  assume "dropWhile (\<lambda>c. c \<noteq> sep) s = x # rest"
  then have "length (x # rest) \<le> length s"
    by (metis length_dropWhile_le)
  then show "((sep, rest), (sep, s)) \<in> measure (\<lambda>(sep, s). length s)"
    by simp
qed

declare py_split.simps [simp del]

text \<open>\<^verbatim>\<open>s.split(sep, 1)\<close>: at most one cut.\<close>

definition py_split1 :: "char \<Rightarrow> string \<Rightarrow> string list" where
  "py_split1 sep s =
     (case dropWhile (\<lambda>c. c \<noteq> sep) s of
        [] \<Rightarrow> [s]
      | _ # rest \<Rightarrow> [takeWhile (\<lambda>c. c \<noteq> sep) s, rest])"

text \<open>\<^verbatim>\<open>sub in s\<close> on strings.\<close>

definition str_in :: "string \<Rightarrow> string \<Rightarrow> bool" where
  "str_in sub s = sublist sub s"

text \<open>\<^verbatim>\<open>os.path.join(a, b)\<close> and \<^verbatim>\<open>os.path.basename(p)\<close> of \<^verbatim>\<open>posixpath\<close>.\<close>

definition os_path_join :: "string \<Rightarrow> string \<Rightarrow> string" where
  "os_path_join a b =
     (if prefix ''/'' b then b
      else if a = [] \<or> suffix ''/'' a then a @ b
      else a @ ''/'' @ b)"

definition os_path_basename :: "string \<Rightarrow> string" where
  "os_path_basename p = rev (takeWhile (\<lambda>c. c \<noteq> CHR ''/'') (rev p))"

section \<open>Configuration and helpers\<close>

definition USER_AGENT :: string where
  "USER_AGENT = ''kinc-firmwareKeysFetcher/1.0''"

definition BASE :: string where
  "BASE = ''https://theapplewiki.com/wiki/Special:Ask''"

definition CACHE_DIR :: string where
  "CACHE_DIR = ''.cache''"

definition CACHE_TTL :: real where
  "CACHE_TTL = 7 * 24 * 60 * 60"

definition POLITE_DELAY :: real where
  "POLITE_DELAY = 2"

definition smw_path_escape :: "string \<Rightarrow> string" where
  "smw_path_escape text =
     py_replace '','' ''%2C''
       (py_replace '':'' ''-3A''
         (py_replace '' '' ''-20''
           (py_replace '']'' ''-5D''
             (py_replace ''['' ''-5B'' text))))"

definition cache_path :: "env \<Rightarrow> string \<Rightarrow> json \<Rightarrow> json \<Rightarrow> string" where
  "cache_path e device build version =
     (if truthy build \<and> truthy version then
        os_path_join CACHE_DIR
          (device @ ''_'' @ py_str e build @ ''_'' @ py_str e version @ ''.json'')
      else if truthy build then
        os_path_join CACHE_DIR (device @ ''_'' @ py_str e build @ ''.json'')
      else if truthy version then
        os_path_join CACHE_DIR (device @ ''_'' @ py_str e version @ ''.json'')
      else
        os_path_join CACHE_DIR (device @ ''_unknown.json''))"

section \<open>The world: files, clock, printed lines\<close>

text \<open>
  State is passed explicitly. \<open>nodes\<close> is what a path resolves to (paths are compared as
  the strings the program builds; the model has no \<^verbatim>\<open>..\<close>, links or repeated
  slashes), \<open>cache_listing\<close> is what \<^verbatim>\<open>os.listdir(CACHE_DIR)\<close> returns, in the
  order the operating system chooses, \<open>clock\<close> is \<^verbatim>\<open>time.time()\<close> and \<open>stdout\<close> the
  lines printed so far. Timestamps are real numbers: the rounding of the float
  subtraction in \<open>cache_valid\<close> is left out. The module creates \<^verbatim>\<open>.cache\<close> when it
  is imported, so listing it does not fail. Within one call only \<^verbatim>\<open>time.sleep\<close>
  moves the clock.
\<close>

datatype node = File string real | Dir real

fun mtime :: "node \<Rightarrow> real" where
  "mtime (File text t) = t"
| "mtime (Dir t) = t"

record world =
  nodes :: "string \<Rightarrow> node option"
  cache_listing :: "string list"
  clock :: real
  stdout :: "string list"

definition print :: "world \<Rightarrow> string \<Rightarrow> world" where
  "print w line = w\<lparr>stdout := stdout w @ [line]\<rparr>"

text \<open>\<^verbatim>\<open>with open(path, "r") as f\<close>, giving the text of the file.\<close>

definition open_r :: "world \<Rightarrow> string \<Rightarrow> py_exn + string" where
  "open_r w path =
     (case nodes w path of
        None \<Rightarrow> Inl FileNotFoundError
      | Some (Dir t) \<Rightarrow> Inl IsADirectoryError
      | Some (File text t) \<Rightarrow> Inr text)"

text \<open>
  The name a path has inside the cache directory, when it lies directly in it. A file
  created there joins the listing; where the operating system puts it is its choice,
  the model appends it.
\<close>

definition cache_entry_name :: "string \<Rightarrow> string option" where
  "cache_entry_name path =
     (if prefix (CACHE_DIR @ ''/'') path
         \<and> CHR ''/'' \<notin> set (drop (length CACHE_DIR + 1) path)
         \<and> drop (length CACHE_DIR + 1) path \<noteq> []
      then Some (drop (length CACHE_DIR + 1) path) else None)"

definition listing_add :: "string \<Rightarrow> string list \<Rightarrow> string list" where
  "listing_add path names =
     (case cache_entry_name path of
        None \<Rightarrow> names
      | Some n \<Rightarrow> (if n \<in> set names then names else names @ [n]))"

text \<open>\<^verbatim>\<open>with open(path, "w") as f: f.write(text)\<close>.\<close>

definition open_w :: "env \<Rightarrow> world \<Rightarrow> string \<Rightarrow> string \<Rightarrow> py_exn + world" where
  "open_w e w path text =
     (case nodes w path of
        Some (Dir t) \<Rightarrow> Inl IsADirectoryError
      | _ \<Rightarrow>
          (if can_open_w e path then
             Inr (w\<lparr>nodes := (nodes w)(path \<mapsto> File text (clock w)),
                    cache_listing := listing_add path (cache_listing w)\<rparr>)
           else Inl OSError))"

section \<open>The cache store\<close>

definition cache_valid :: "world \<Rightarrow> string \<Rightarrow> bool" where
  "cache_valid w path =
     (case nodes w path of
        None \<Rightarrow> False
      | Some n \<Rightarrow> clock w - mtime n < CACHE_TTL)"

text \<open>Reading a cache file that was found valid: the two lines under each \<^verbatim>\<open>if cache_valid\<close>.\<close>

definition read_cache_file ::
  "env \<Rightarrow> world \<Rightarrow> string \<Rightarrow> py_exn + ((json \<times> string option) \<times> world)" where
  "read_cache_file e w path =
     (case open_r w path of
        Inl x \<Rightarrow> Inl x
      | Inr text \<Rightarrow>
          (case json_load e text of
             Inl x \<Rightarrow> Inl x
           | Inr data \<Rightarrow> Inr ((data, Some path), w)))"

text \<open>
  The test of the fallback loop on one file name:
  \<^verbatim>\<open>device in fname and ((build and build in fname) or (version and version in fname))\<close>.
\<close>

definition given_in :: "string option \<Rightarrow> string \<Rightarrow> bool" where
  "given_in x fname = (case x of None \<Rightarrow> False | Some s \<Rightarrow> s \<noteq> [] \<and> str_in s fname)"

definition scan_match :: "string \<Rightarrow> string option \<Rightarrow> string option \<Rightarrow> string \<Rightarrow> bool" where
  "scan_match device build version fname =
     (str_in device fname \<and> (given_in build fname \<or> given_in version fname))"

text \<open>The \<^verbatim>\<open>for fname in os.listdir(CACHE_DIR)\<close> loop, with \<^verbatim>\<open>return None, None\<close> after it.\<close>

fun scan_cache ::
  "env \<Rightarrow> world \<Rightarrow> string \<Rightarrow> string option \<Rightarrow> string option \<Rightarrow> bool \<Rightarrow> string list
     \<Rightarrow> py_exn + ((json \<times> string option) \<times> world)" where
  "scan_cache e w device build version debug [] = Inr ((JNull, None), w)"
| "scan_cache e w device build version debug (fname # rest) =
     (if scan_match device build version fname then
        (let path = os_path_join CACHE_DIR fname in
         if cache_valid w path then
           read_cache_file e
             (if debug then print w (''[DEBUG] Using fallback cache: '' @ path) else w) path
         else scan_cache e w device build version debug rest)
      else scan_cache e w device build version debug rest)"

definition load_cache ::
  "env \<Rightarrow> world \<Rightarrow> string \<Rightarrow> string option \<Rightarrow> string option \<Rightarrow> bool
     \<Rightarrow> py_exn + ((json \<times> string option) \<times> world)" where
  "load_cache e w device build version debug =
     (let exact_path = cache_path e device (opt_json build) (opt_json version) in
      if cache_valid w exact_path then
        read_cache_file e
          (if debug then print w (''[DEBUG] Using exact cache: '' @ exact_path) else w)
          exact_path
      else scan_cache e w device build version debug (cache_listing w))"

definition save_cache ::
  "env \<Rightarrow> world \<Rightarrow> json \<Rightarrow> string \<Rightarrow> json \<Rightarrow> json \<Rightarrow> py_exn + world" where
  "save_cache e w data device build version =
     (let path = cache_path e device build version in
      case open_w e w path (json_dump e data) of
        Inl x \<Rightarrow> Inl x
      | Inr w' \<Rightarrow> Inr (print w' (''[+] Saved cache '' @ path)))"

section \<open>Operations on parsed JSON\<close>

text \<open>Sequencing of calls that may raise.\<close>

definition then_do :: "py_exn + 'a \<Rightarrow> ('a \<Rightarrow> py_exn + 'b) \<Rightarrow> py_exn + 'b" where
  "then_do m f = (case m of Inl x \<Rightarrow> Inl x | Inr a \<Rightarrow> f a)"

text \<open>\<^verbatim>\<open>x.get(key, default)\<close>: only a dict has the method.\<close>

definition py_get :: "json \<Rightarrow> string \<Rightarrow> json \<Rightarrow> py_exn + json" where
  "py_get x key dflt =
     (case x of
        JObj kvs \<Rightarrow> Inr (case map_of kvs key of None \<Rightarrow> dflt | Some v \<Rightarrow> v)
      | _ \<Rightarrow> Inl AttributeError)"

text \<open>\<^verbatim>\<open>x.items()\<close>.\<close>

definition py_items :: "json \<Rightarrow> py_exn + (string \<times> json) list" where
  "py_items x = (case x of JObj kvs \<Rightarrow> Inr kvs | _ \<Rightarrow> Inl AttributeError)"

text \<open>\<^verbatim>\<open>key in x\<close> for a string \<open>key\<close>.\<close>

definition py_contains :: "json \<Rightarrow> string \<Rightarrow> py_exn + bool" where
  "py_contains x key =
     (case x of
        JObj kvs \<Rightarrow> Inr (key \<in> set (map fst kvs))
      | JArr xs \<Rightarrow> Inr (JStr key \<in> set xs)
      | JStr s \<Rightarrow> Inr (str_in key s)
      | _ \<Rightarrow> Inl TypeError)"

text \<open>\<^verbatim>\<open>x[key]\<close> for a string \<open>key\<close>.\<close>

definition py_getitem :: "json \<Rightarrow> string \<Rightarrow> py_exn + json" where
  "py_getitem x key =
     (case x of
        JObj kvs \<Rightarrow> (case map_of kvs key of None \<Rightarrow> Inl KeyError | Some v \<Rightarrow> Inr v)
      | _ \<Rightarrow> Inl TypeError)"

text \<open>\<^verbatim>\<open>x[0]\<close>. No dict read from JSON has the key \<open>0\<close>.\<close>

definition py_first :: "json \<Rightarrow> py_exn + json" where
  "py_first x =
     (case x of
        JArr [] \<Rightarrow> Inl IndexError
      | JArr (y # ys) \<Rightarrow> Inr y
      | JStr [] \<Rightarrow> Inl IndexError
      | JStr (c # cs) \<Rightarrow> Inr (JStr [c])
      | JObj kvs \<Rightarrow> Inl KeyError
      | _ \<Rightarrow> Inl TypeError)"

section \<open>Step 1: discovery\<close>

definition discovery_query :: "string \<Rightarrow> string option \<Rightarrow> string option \<Rightarrow> string" where
  "discovery_query device version build =
     ''[[:Keys:+]]''
     @ ''[[Has_firmware_device::'' @ device @ '']]''
     @ (case version of
          Some v \<Rightarrow> (if v \<noteq> [] then ''[[Has_firmware_version::'' @ v @ '']]'' else [])
        | None \<Rightarrow> [])
     @ (case build of
          Some b \<Rightarrow> (if b \<noteq> [] then ''[[Has_firmware_build::'' @ b @ '']]'' else [])
        | None \<Rightarrow> [])
     @ ''/-3FHas-20firmware-20build%3Dbuild''
     @ ''/-3FHas-20firmware-20version%3Dversion''
     @ ''/-3FHas-20firmware-20device%3Ddevice''
     @ ''/-3FHas-20firmware-20codename%3Dcodename''
     @ ''/limit%3D1/offset%3D0/format%3Djson/searchlabel%3DKeys/type%3Dbroadtable''"

definition discovery_url :: "string \<Rightarrow> string option \<Rightarrow> string option \<Rightarrow> string" where
  "discovery_url device version build =
     BASE @ ''/'' @ smw_path_escape (discovery_query device version build)"

text \<open>
  \<^verbatim>\<open>if key in printouts and printouts[key]: ... = printouts[key][0]\<close>, the value
  staying \<^verbatim>\<open>None\<close> otherwise.
\<close>

definition printout :: "json \<Rightarrow> string \<Rightarrow> py_exn + json" where
  "printout printouts key =
     then_do (py_contains printouts key) (\<lambda>has.
       if has then
         then_do (py_getitem printouts key) (\<lambda>v.
           if truthy v then py_first v else Inr JNull)
       else Inr JNull)"

text \<open>The body of the loop for a page title that starts with \<^verbatim>\<open>Keys:\<close>.\<close>

definition discover_entry :: "string \<Rightarrow> json \<Rightarrow> py_exn + (json \<times> json \<times> json)" where
  "discover_entry page_title entry =
     (case py_split1 CHR '' '' (drop (length ''Keys:'') page_title) of
        [] \<Rightarrow> Inl IndexError
      | update_line # _ \<Rightarrow>
          then_do (py_get entry ''printouts'' (JObj [])) (\<lambda>printouts.
          then_do (printout printouts ''build'') (\<lambda>printed_build.
          then_do (printout printouts ''version'') (\<lambda>discovered_version.
            let parts = py_split CHR '' '' (drop (length ''Keys:'') page_title);
                discovered_build =
                  (if \<not> truthy printed_build \<and> length parts > 1
                   then JStr (parts ! 1) else printed_build)
            in Inr (JStr update_line, discovered_build, discovered_version)))))"

text \<open>
  \<^verbatim>\<open>for page_title, entry in results.items()\<close>: \<open>None\<close> when the loop ends without a
  \<^verbatim>\<open>return\<close>.
\<close>

fun discover_loop :: "(string \<times> json) list \<Rightarrow> py_exn + (json \<times> json \<times> json) option" where
  "discover_loop [] = Inr None"
| "discover_loop ((page_title, entry) # rest) =
     (if prefix ''Keys:'' page_title
      then then_do (discover_entry page_title entry) (\<lambda>r. Inr (Some r))
      else discover_loop rest)"

definition discover_update_line ::
  "env \<Rightarrow> world \<Rightarrow> string \<Rightarrow> string option \<Rightarrow> string option \<Rightarrow> bool
     \<Rightarrow> py_exn + ((json \<times> json \<times> json) \<times> world)" where
  "discover_update_line e w device version build verbose =
     (let url = discovery_url device version build;
          w1 = (if verbose then print w (''[DEBUG] Discovery URL: '' @ url) else w)
      in case urlopen_json e url of
           Inl msg \<Rightarrow>
             Inr ((JNull, JNull, JNull), print w1 (''[-] Discovery request failed: '' @ msg))
         | Inr data \<Rightarrow>
             then_do (py_get data ''results'' (JObj [])) (\<lambda>results.
               if \<not> truthy results then Inr ((JNull, JNull, JNull), w1)
               else
                 then_do (py_items results) (\<lambda>items.
                 then_do (discover_loop items) (\<lambda>found.
                   case found of
                     None \<Rightarrow> Inr ((JNull, JNull, JNull), w1)
                   | Some (update_line, discovered_build, discovered_version) \<Rightarrow>
                       Inr ((update_line, discovered_build, discovered_version),
                            (if verbose then
                               print w1
                                 (''[DEBUG] Update line: '' @ py_str e update_line
                                  @ '', build: '' @ py_str e discovered_build
                                  @ '', version: '' @ py_str e discovered_version)
                             else w1))))))"

section \<open>Step 2: fetch keys\<close>

definition fetch_keys_url :: "env \<Rightarrow> string \<Rightarrow> json \<Rightarrow> json \<Rightarrow> string" where
  "fetch_keys_url e device build update =
     BASE
     @ ''/-5B-5B-2DHas-20subobject::''
     @ smw_path_escape
         (''Keys:'' @ py_str e update @ '' '' @ py_str e build @ '' ('' @ device @ '')'')
     @ ''-5D-5D''
     @ ''/-3FHas-20filename%3Dfilename''
     @ ''/-3FHas-20firmware-20device%3Ddevice''
     @ ''/-3FHas-20key%3Dkey''
     @ ''/-3FKey-20DevKBAG%3Ddevkbag''
     @ ''/-3FHas-20key-20IV%3Div''
     @ ''/-3FKey-20KBAG%3Dkbag''
     @ ''/mainlabel%3Dfilename''
     @ ''/limit%3D100/offset%3D0/format%3Djson/searchlabel%3DKeys/type%3Dsimple''"

text \<open>\<^verbatim>\<open>data if isinstance(data, dict) and data else None\<close>.\<close>

definition nonempty_dict_or_none :: "json \<Rightarrow> json" where
  "nonempty_dict_or_none data =
     (case data of JObj kvs \<Rightarrow> (if kvs \<noteq> [] then data else JNull) | _ \<Rightarrow> JNull)"

definition fetch_keys ::
  "env \<Rightarrow> world \<Rightarrow> string \<Rightarrow> json \<Rightarrow> json \<Rightarrow> bool \<Rightarrow> py_exn + (json \<times> world)" where
  "fetch_keys e w device build update verbose =
     (let url = fetch_keys_url e device build update;
          w1 = (if verbose then print w (''[DEBUG] Fetch keys URL: '' @ url) else w)
      in case urlopen_json e url of
           Inl msg \<Rightarrow> Inr (JNull, print w1 (''[-] Fetch keys request failed: '' @ msg))
         | Inr data \<Rightarrow> Inr (nonempty_dict_or_none data, w1))"

section \<open>Fetch workflow\<close>

text \<open>
  The build read back from the name of the cache file that was hit:
  \<^verbatim>\<open>parts = os.path.basename(cache_file).replace(".json", "").split("_")\<close>, and
  \<^verbatim>\<open>parts[1]\<close> when there are two parts or more; the build stays as it was otherwise.
\<close>

definition build_from_cache_file :: "string \<Rightarrow> json \<Rightarrow> json" where
  "build_from_cache_file cache_file final_build =
     (let parts = py_split CHR ''_'' (py_replace ''.json'' [] (os_path_basename cache_file))
      in if length parts \<ge> 2 then JStr (parts ! 1) else final_build)"

text \<open>The last lines of \<^verbatim>\<open>fetch_firmware_keys\<close>: the output file is always written.\<close>

definition write_output ::
  "env \<Rightarrow> world \<Rightarrow> string \<Rightarrow> json \<Rightarrow> json \<Rightarrow> bool
     \<Rightarrow> py_exn + ((json \<times> string option) \<times> world)" where
  "write_output e w device final_build keys debug =
     (let output_file = device @ ''_'' @ py_str e final_build @ ''.json''
      in case open_w e w output_file (json_dump e keys) of
           Inl x \<Rightarrow> Inl x
         | Inr w' \<Rightarrow>
             Inr ((keys, Some output_file),
                  (if debug then print w' (''[DEBUG] Keys written to '' @ output_file)
                   else w')))"

text \<open>
  The pause before the second request: the debug line, then
  \<^verbatim>\<open>time.sleep(POLITE_DELAY)\<close>.
\<close>

definition polite_delay :: "world \<Rightarrow> bool \<Rightarrow> world" where
  "polite_delay w debug =
     (let w' = (if debug then print w ''[DEBUG] Waiting 2s before fetching keys...'' else w)
      in w'\<lparr>clock := clock w' + POLITE_DELAY\<rparr>)"

definition fetch_firmware_keys ::
  "env \<Rightarrow> world \<Rightarrow> string \<Rightarrow> string option \<Rightarrow> string option \<Rightarrow> bool
     \<Rightarrow> py_exn + ((json \<times> string option) \<times> world)" where
  "fetch_firmware_keys e w device version build debug =
     (case load_cache e w device build version debug of
        Inl x \<Rightarrow> Inl x
      | Inr ((cached, cache_file), w1) \<Rightarrow>
          if truthy cached then
            (if \<not> given build \<and> given cache_file then
               (let final_build = build_from_cache_file (the cache_file) (opt_json build);
                    w2 = (if debug then
                            print w1
                              (''[DEBUG] Extracted build from cache filename: ''
                               @ py_str e final_build)
                          else w1)
                in write_output e w2 device final_build cached debug)
             else write_output e w1 device (opt_json build) cached debug)
          else
            (case discover_update_line e w1 device version build debug of
               Inl x \<Rightarrow> Inl x
             | Inr ((update_line, discovered_build, discovered_version), w2) \<Rightarrow>
                 if \<not> truthy update_line then
                   Inr ((JNull, None),
                        print w2 (''[-] Failed to discover update line for '' @ device))
                 else
                   (let final_build =
                          (if given build then opt_json build else discovered_build);
                        version' =
                          (if given version then opt_json version else discovered_version);
                        w4 = polite_delay w2 debug
                    in case fetch_keys e w4 device final_build update_line debug of
                         Inl x \<Rightarrow> Inl x
                       | Inr (keys, w5) \<Rightarrow>
                           if \<not> truthy keys then
                             Inr ((JNull, None),
                                  print w5
                                    (''[-] Failed to fetch keys for '' @ device @ '' ''
                                     @ py_str e final_build))
                           else
                             (case save_cache e w5 keys device final_build version' of
                                Inl x \<Rightarrow> Inl x
                              | Inr w6 \<Rightarrow>
                                  write_output e w6 device final_build keys debug))))"

section \<open>Command line and bulk mode\<close>

text \<open>
  What \<^verbatim>\<open>argparse\<close> hands to \<^verbatim>\<open>main\<close>: \<^verbatim>\<open>--product\<close> is required, the others
  are \<^verbatim>\<open>None\<close> when absent, and \<^verbatim>\<open>--bulk\<close> takes one entry or more.
\<close>

record args =
  arg_product :: string
  arg_ios :: "string option"
  arg_build :: "string option"
  arg_bulk :: "string list option"
  arg_debug :: bool

text \<open>
  The first four lines of the bulk loop's body: the entry is cut at every comma, then
  \<^verbatim>\<open>parts[0]\<close>, \<^verbatim>\<open>parts[1]\<close> and \<^verbatim>\<open>parts[2]\<close> are read, an empty or missing part
  being \<^verbatim>\<open>None\<close>.
\<close>

definition bulk_entry :: "string \<Rightarrow> py_exn + (string \<times> string option \<times> string option)" where
  "bulk_entry entry =
     (let parts = py_split CHR '','' entry
      in case parts of
           [] \<Rightarrow> Inl IndexError
         | product # _ \<Rightarrow>
             Inr (product,
                  (if length parts > 1 \<and> parts ! 1 \<noteq> [] then Some (parts ! 1) else None),
                  (if length parts > 2 \<and> parts ! 2 \<noteq> [] then Some (parts ! 2) else None)))"

text \<open>\<^verbatim>\<open>for entry in args.bulk\<close>: an entry is skipped (\<^verbatim>\<open>continue\<close>) or resolved.\<close>

fun bulk_loop :: "env \<Rightarrow> world \<Rightarrow> bool \<Rightarrow> string list \<Rightarrow> py_exn + world" where
  "bulk_loop e w debug [] = Inr w"
| "bulk_loop e w debug (entry # rest) =
     (case bulk_entry entry of
        Inl x \<Rightarrow> Inl x
      | Inr (product, version, build) \<Rightarrow>
          if \<not> given version \<and> \<not> given build then
            bulk_loop e
              (print w (''[-] Entry '' @ [CHR 0x27] @ entry @ [CHR 0x27]
                        @ '' must include at least version or build''))
              debug rest
          else
            (case fetch_firmware_keys e w product version build debug of
               Inl x \<Rightarrow> Inl x
             | Inr (r, w') \<Rightarrow> bulk_loop e w' debug rest))"

definition main :: "env \<Rightarrow> world \<Rightarrow> args \<Rightarrow> py_exn + world" where
  "main e w a =
     (case arg_bulk a of
        Some (entry # rest) \<Rightarrow> bulk_loop e w (arg_debug a) (entry # rest)
      | _ \<Rightarrow>
          if \<not> given (arg_ios a) \<and> \<not> given (arg_build a) then Inl SystemExit
          else
            (case fetch_firmware_keys e w (arg_product a) (arg_ios a) (arg_build a)
                    (arg_debug a) of
               Inl x \<Rightarrow> Inl x
             | Inr (r, w') \<Rightarrow> Inr w'))"

section \<open>The escaping contract, in the specification's words\<close>

text \<open>
  The specification describes the escaping character by character: each of the five
  reserved characters has a fixed token, every other character stays. \<open>smw_rules\<close> is
  the list of the five substitutions, in the order of the source line, and \<open>rule_char\<close>
  what a list of substitutions does to one character when they do not interfere.
\<close>

definition spec_escape_char :: "char \<Rightarrow> string" where
  "spec_escape_char c =
     (if c = CHR ''['' then ''-5B''
      else if c = CHR '']'' then ''-5D''
      else if c = CHR '' '' then ''-20''
      else if c = CHR '':'' then ''-3A''
      else if c = CHR '','' then ''%2C''
      else [c])"

definition smw_rules :: "(string \<times> string) list" where
  "smw_rules =
     [(''['', ''-5B''), ('']'', ''-5D''), ('' '', ''-20''), ('':'', ''-3A''), ('','', ''%2C'')]"

definition rule_char :: "(string \<times> string) list \<Rightarrow> char \<Rightarrow> string" where
  "rule_char rs c = (case map_of rs [c] of None \<Rightarrow> [c] | Some new \<Rightarrow> new)"

section \<open>Properties of the escaping\<close>

lemma py_replace_char:
  "py_replace [c] new s = concat (map (\<lambda>x. if x = c then new else [x]) s)"
  by (induction s) auto

lemma smw_path_escape_chars: "smw_path_escape s = concat (map spec_escape_char s)"
  unfolding smw_path_escape_def py_replace_char
  by (induction s) (auto simp: spec_escape_char_def)

lemma smw_path_escape_example: "smw_path_escape ''Keys: [Test], Value'' = ''Keys-3A-20-5BTest-5D%2C-20Value''"
  by (simp add: smw_path_escape_chars spec_escape_char_def)

lemma fold_replace_chars:
  assumes "distinct (map fst rs)"
    and "\<forall>(old, new) \<in> set rs. \<exists>c. old = [c]"
    and "\<forall>(old, new) \<in> set rs. \<forall>(old', new') \<in> set rs. \<forall>c \<in> set new. old' \<noteq> [c]"
  shows "fold (\<lambda>(old, new). py_replace old new) rs s = concat (map (rule_char rs) s)"
  using assms
proof (induction rs arbitrary: s)
  case Nil
  then show ?case by (simp add: rule_char_def)
next
  case (Cons r rs)
  obtain old new where r: "r = (old, new)" by (cases r)
  from Cons.prems(2) r obtain c where old: "old = [c]" by auto
  have fresh: "\<And>x. x \<in> set new \<Longrightarrow> rule_char rs x = [x]"
  proof -
    fix x assume x: "x \<in> set new"
    have "map_of rs [x] = None"
    proof (rule ccontr)
      assume "map_of rs [x] \<noteq> None"
      then obtain n where "map_of rs [x] = Some n" by auto
      then have "([x], n) \<in> set rs" by (rule map_of_SomeD)
      with Cons.prems(3) r x show False by fastforce
    qed
    then show "rule_char rs x = [x]" by (simp add: rule_char_def)
  qed
  have new_fix: "concat (map (rule_char rs) new) = new"
    using fresh by (induction new) auto
  have notin: "map_of rs [c] = None"
    using Cons.prems(1) r old by (simp add: map_of_eq_None_iff)
  have head: "\<And>x. rule_char (r # rs) x = (if x = c then new else rule_char rs x)"
    by (simp add: rule_char_def r old)
  have step: "concat (map (rule_char rs) (py_replace old new s)) = concat (map (rule_char (r # rs)) s)"
    unfolding old py_replace_char
    by (induction s) (simp_all add: new_fix head)
  have p1: "distinct (map fst rs)"
    using Cons.prems(1) by simp
  have p2: "\<forall>(old, new) \<in> set rs. \<exists>c. old = [c]"
    using Cons.prems(2) by simp
  have p3: "\<forall>(old, new) \<in> set rs. \<forall>(old', new') \<in> set rs. \<forall>c \<in> set new. old' \<noteq> [c]"
    using Cons.prems(3) by fastforce
  have "fold (\<lambda>(old, new). py_replace old new) rs (py_replace old new s)
          = concat (map (rule_char rs) (py_replace old new s))"
    by (rule Cons.IH[OF p1 p2 p3])
  then show ?case using step r by simp
qed

lemma rules_any_order:
  assumes "distinct rs" "set rs = set smw_rules"
  shows "fold (\<lambda>(old, new). py_replace old new) rs s = smw_path_escape s"
proof -
  have inj: "inj_on fst (set rs)"
    unfolding assms(2) by (simp add: smw_rules_def)
  have d: "distinct (map fst rs)"
    using assms(1) inj by (simp add: distinct_map)
  have d0: "distinct (map fst smw_rules)" by (simp add: smw_rules_def)
  have mo: "map_of rs = map_of smw_rules"
    using d d0 assms(2) by (simp add: map_of_inject_set)
  have a2: "\<forall>(old, new) \<in> set rs. \<exists>c. old = [c]"
    unfolding assms(2) by (simp add: smw_rules_def)
  have a3: "\<forall>(old, new) \<in> set rs. \<forall>(old', new') \<in> set rs. \<forall>c \<in> set new. old' \<noteq> [c]"
    unfolding assms(2) by (simp add: smw_rules_def)
  have rc: "rule_char rs = spec_escape_char"
    unfolding rule_char_def mo by (rule ext) (simp add: smw_rules_def spec_escape_char_def)
  show ?thesis
    using fold_replace_chars[OF d a2 a3] by (simp add: rc smw_path_escape_chars)
qed

text \<open>
  Claim C6. \<open>smw_path_escape\<close> is a function of its argument alone. On every string it
  replaces each \<^verbatim>\<open>[\<close> by \<^verbatim>\<open>-5B\<close>, each \<^verbatim>\<open>]\<close> by \<^verbatim>\<open>-5D\<close>, each space by
  \<^verbatim>\<open>-20\<close>, each \<^verbatim>\<open>:\<close> by \<^verbatim>\<open>-3A\<close> and each \<^verbatim>\<open>,\<close> by \<^verbatim>\<open>%2C\<close>, and keeps every
  other character; so it does on \<^verbatim>\<open>Keys: [Test], Value\<close>; and applying the five
  substitutions in any order gives the same result.
\<close>

theorem C6_smw_path_escape:
  "smw_path_escape s = concat (map spec_escape_char s)
   \<and> smw_path_escape ''Keys: [Test], Value'' = ''Keys-3A-20-5BTest-5D%2C-20Value''
   \<and> (\<forall>rs. distinct rs \<and> set rs = set smw_rules \<longrightarrow>
         fold (\<lambda>(old, new). py_replace old new) rs s = smw_path_escape s)"
  using smw_path_escape_chars smw_path_escape_example rules_any_order by blast

theorem C6_smw_path_escape_witness:
  "distinct (rev smw_rules) \<and> set (rev smw_rules) = set smw_rules
   \<and> fold (\<lambda>(old, new). py_replace old new) (rev smw_rules) ''a[0]: b, c''
       = smw_path_escape ''a[0]: b, c''
   \<and> smw_path_escape ''a[0]: b, c'' = ''a-5B0-5D-3A-20b%2C-20c''"
proof -
  have d: "distinct (rev smw_rules)"
    by (simp add: smw_rules_def)
  have h: "distinct (rev smw_rules) \<and> set (rev smw_rules) = set smw_rules"
    using d by simp
  have c: "smw_path_escape ''a[0]: b, c'' = concat (map spec_escape_char ''a[0]: b, c'')"
    using C6_smw_path_escape [of "''a[0]: b, c''"] by blast
  have f: "fold (\<lambda>(old, new). py_replace old new) (rev smw_rules) ''a[0]: b, c''
             = smw_path_escape ''a[0]: b, c''"
    using C6_smw_path_escape [of "''a[0]: b, c''"] h by blast
  have v: "concat (map spec_escape_char ''a[0]: b, c'') = ''a-5B0-5D-3A-20b%2C-20c''"
    by (simp add: spec_escape_char_def)
  show ?thesis using h c f v by simp
qed

section \<open>Properties of the cache file names\<close>

lemma truthy_opt_json: "truthy (opt_json x) = given x"
  by (cases x) (simp_all add: opt_json_def given_def)

lemma py_str_JStr: "py_str e (JStr s) = s"
  by (simp add: py_str_def)

lemma join_cache_dir:
  "os_path_join CACHE_DIR (device @ CHR ''_'' # x)
     = (if prefix ''/'' device then [] else ''.cache/'') @ device @ CHR ''_'' # x"
  by (cases device) (simp_all add: os_path_join_def CACHE_DIR_def suffix_def)

lemma cache_path_empty_is_absent:
  "cache_path e device (JStr []) version = cache_path e device JNull version
   \<and> cache_path e device build (JStr []) = cache_path e device build JNull
   \<and> cache_path e device (JStr []) (JStr []) = os_path_join CACHE_DIR (device @ ''_unknown.json'')"
  by (simp add: cache_path_def)

lemma scan_match_empty_build:
  "scan_match device (Some []) version fname = scan_match device None version fname"
  by (simp add: scan_match_def given_in_def)

lemma scan_match_empty_version:
  "scan_match device build (Some []) fname = scan_match device build None fname"
  by (simp add: scan_match_def given_in_def)

lemma scan_cache_empty_build:
  "scan_cache e w device (Some []) version debug names = scan_cache e w device None version debug names"
  by (induction names) (simp_all add: scan_match_empty_build Let_def)

lemma scan_cache_empty_version:
  "scan_cache e w device build (Some []) debug names = scan_cache e w device build None debug names"
  by (induction names) (simp_all add: scan_match_empty_version Let_def)

lemma opt_json_simps: "opt_json None = JNull" "opt_json (Some s) = JStr s"
  by (simp_all add: opt_json_def)

lemma load_cache_empty_build:
  "load_cache e w device (Some []) v debug = load_cache e w device None v debug"
  unfolding load_cache_def opt_json_simps scan_cache_empty_build
  using cache_path_empty_is_absent[of e device "opt_json v"] by simp

lemma load_cache_empty_version:
  "load_cache e w device b (Some []) debug = load_cache e w device b None debug"
  unfolding load_cache_def opt_json_simps scan_cache_empty_version
  using cache_path_empty_is_absent[of e device _ "opt_json b"] by simp

text \<open>
  Claim C7. \<open>cache_path\<close> is a function of the device, the build and the version, and
  follows the priority list: with build and version known (non-empty) the name is
  \<^verbatim>\<open>{device}_{build}_{version}.json\<close>, with the build only \<^verbatim>\<open>{device}_{build}.json\<close>,
  with the version only \<^verbatim>\<open>{device}_{version}.json\<close>, with neither
  \<^verbatim>\<open>{device}_unknown.json\<close>, each joined to the cache directory; and the path for a
  known build and version differs from the path of the same device with the build only
  and from the path with the version only. An identifier is unknown when it is
  \<^verbatim>\<open>None\<close> or the empty string.
\<close>

theorem C7_cache_path:
  assumes "b \<noteq> []" and "v \<noteq> []" and "\<not> given x" and "\<not> given y"
  shows "cache_path e device (JStr b) (JStr v)
           = os_path_join CACHE_DIR (device @ ''_'' @ b @ ''_'' @ v @ ''.json'')
       \<and> cache_path e device (JStr b) (opt_json y)
           = os_path_join CACHE_DIR (device @ ''_'' @ b @ ''.json'')
       \<and> cache_path e device (opt_json x) (JStr v)
           = os_path_join CACHE_DIR (device @ ''_'' @ v @ ''.json'')
       \<and> cache_path e device (opt_json x) (opt_json y)
           = os_path_join CACHE_DIR (device @ ''_unknown.json'')
       \<and> cache_path e device (JStr b) (JStr v) \<noteq> cache_path e device (JStr b) (opt_json y)
       \<and> cache_path e device (JStr b) (JStr v) \<noteq> cache_path e device (opt_json x) (JStr v)"
proof -
  have tx: "\<not> truthy (opt_json x)" and ty: "\<not> truthy (opt_json y)"
    using assms by (simp_all add: truthy_opt_json)
  have both: "cache_path e device (JStr b) (JStr v)
           = os_path_join CACHE_DIR (device @ ''_'' @ b @ ''_'' @ v @ ''.json'')"
    using assms by (simp add: cache_path_def py_str_JStr)
  have bo: "cache_path e device (JStr b) (opt_json y)
           = os_path_join CACHE_DIR (device @ ''_'' @ b @ ''.json'')"
    using assms ty by (simp add: cache_path_def py_str_JStr)
  have vo: "cache_path e device (opt_json x) (JStr v)
           = os_path_join CACHE_DIR (device @ ''_'' @ v @ ''.json'')"
    using assms tx by (simp add: cache_path_def py_str_JStr)
  have no: "cache_path e device (opt_json x) (opt_json y)
           = os_path_join CACHE_DIR (device @ ''_unknown.json'')"
    using tx ty by (simp add: cache_path_def)
  have d1: "cache_path e device (JStr b) (JStr v) \<noteq> cache_path e device (JStr b) (opt_json y)"
    unfolding both bo using join_cache_dir[of device] by simp
  have "length (b @ ''_'' @ v @ ''.json'') \<noteq> length (v @ ''.json'')" by simp
  then have "b @ ''_'' @ v @ ''.json'' \<noteq> v @ ''.json''" by metis
  then have d2: "cache_path e device (JStr b) (JStr v) \<noteq> cache_path e device (opt_json x) (JStr v)"
    unfolding both vo using join_cache_dir[of device] by simp
  show ?thesis using both bo vo no d1 d2 by blast
qed

theorem C7_cache_path_witness:
  "cache_path
     \<lparr>py_repr = (\<lambda>x. []), json_dump = (\<lambda>x. ''[]''),
            json_load = (\<lambda>t. if t = ''[]'' then Inr (JArr []) else Inl JSONDecodeError),
            urlopen_json = (\<lambda>u. Inl ''timed out''), can_open_w = (\<lambda>p. True)\<rparr>
     ''iPhone9,3'' (JStr ''19H370'') (JStr ''15.0.1'') = ''.cache/iPhone9,3_19H370_15.0.1.json''
   \<and> cache_path
     \<lparr>py_repr = (\<lambda>x. []), json_dump = (\<lambda>x. ''[]''),
            json_load = (\<lambda>t. if t = ''[]'' then Inr (JArr []) else Inl JSONDecodeError),
            urlopen_json = (\<lambda>u. Inl ''timed out''), can_open_w = (\<lambda>p. True)\<rparr>
     ''iPhone9,3'' (JStr ''19H370'') (opt_json (Some []))
       \<noteq> cache_path
     \<lparr>py_repr = (\<lambda>x. []), json_dump = (\<lambda>x. ''[]''),
            json_load = (\<lambda>t. if t = ''[]'' then Inr (JArr []) else Inl JSONDecodeError),
            urlopen_json = (\<lambda>u. Inl ''timed out''), can_open_w = (\<lambda>p. True)\<rparr>
     ''iPhone9,3'' (JStr ''19H370'') (JStr ''15.0.1'')"
proof -
  have b: "''19H370'' \<noteq> []" and v: "''15.0.1'' \<noteq> []" by simp_all
  have x: "\<not> given None" and y: "\<not> given (Some [])" by (simp_all add: given_def)
  have j: "os_path_join CACHE_DIR (''iPhone9,3'' @ ''_'' @ ''19H370'' @ ''_'' @ ''15.0.1'' @ ''.json'')
             = ''.cache/iPhone9,3_19H370_15.0.1.json''"
    by (simp add: os_path_join_def CACHE_DIR_def suffix_def)
  show ?thesis
    using C7_cache_path [OF b v x y, of
       "\<lparr>py_repr = (\<lambda>x. []), json_dump = (\<lambda>x. ''[]''),
            json_load = (\<lambda>t. if t = ''[]'' then Inr (JArr []) else Inl JSONDecodeError),
            urlopen_json = (\<lambda>u. Inl ''timed out''), can_open_w = (\<lambda>p. True)\<rparr>"
       "''iPhone9,3''"] j
    by metis
qed

text \<open>
  Claim C10. An empty string is treated as an absent identifier by the cache store:
  \<open>cache_path\<close> gives the same path for an empty build as for no build, and for an
  empty version as for no version, so two empty strings give \<^verbatim>\<open>{device}_unknown.json\<close>;
  the fallback scan never matches a file name on an empty build or version, and
  \<open>load_cache\<close> as a whole does the same for an empty string as for \<^verbatim>\<open>None\<close>.
\<close>

theorem C10_empty_is_absent:
  "cache_path e device (JStr []) version = cache_path e device JNull version
   \<and> cache_path e device build (JStr []) = cache_path e device build JNull
   \<and> cache_path e device (JStr []) (JStr []) = os_path_join CACHE_DIR (device @ ''_unknown.json'')
   \<and> \<not> given_in (Some []) fname
   \<and> scan_match device (Some []) v fname = scan_match device None v fname
   \<and> scan_match device b (Some []) fname = scan_match device b None fname
   \<and> load_cache e w device (Some []) v debug = load_cache e w device None v debug
   \<and> load_cache e w device b (Some []) debug = load_cache e w device b None debug"
  using cache_path_empty_is_absent[of e device version build]
    scan_match_empty_build[of device v fname] scan_match_empty_version[of device b fname]
    load_cache_empty_build[of e w device v debug] load_cache_empty_version[of e w device b debug]
  by (simp add: given_in_def)

section \<open>Properties of the cache store\<close>

lemma print_fields [simp]:
  "nodes (print w l) = nodes w" "clock (print w l) = clock w"
  "cache_listing (print w l) = cache_listing w"
  by (simp_all add: print_def)

lemma cache_valid_print [simp]: "cache_valid (print w l) p = cache_valid w p"
  by (simp add: cache_valid_def split: option.splits)

lemma cache_valid_iff:
  "cache_valid w path \<longleftrightarrow> (\<exists>n. nodes w path = Some n \<and> clock w - mtime n < 7 * 24 * 60 * 60)"
  by (simp add: cache_valid_def CACHE_TTL_def split: option.splits)

lemma read_cache_file_InrD:
  assumes "read_cache_file e w p = Inr ((c, q), w')"
  shows "q = Some p \<and> w' = w \<and> (\<exists>text t. nodes w p = Some (File text t) \<and> json_load e text = Inr c)"
  using assms
  by (auto simp: read_cache_file_def open_r_def split: sum.splits option.splits node.splits)

lemma read_cache_file_debug:
  assumes "read_cache_file e (if debug then print w l else w) p = Inr ((c, q), w')"
  shows "q = Some p \<and> (\<exists>text t. nodes w p = Some (File text t) \<and> json_load e text = Inr c)"
  using read_cache_file_InrD[OF assms] by (cases debug) auto

lemma scan_cache_InrD:
  assumes "scan_cache e w device build version debug names = Inr ((c, Some p), w')"
  shows "cache_valid w p \<and> (\<exists>text t. nodes w p = Some (File text t) \<and> json_load e text = Inr c)
         \<and> (\<exists>f \<in> set names. p = os_path_join CACHE_DIR f \<and> scan_match device build version f)"
  using assms
proof (induction names)
  case Nil
  then show ?case by simp
next
  case (Cons f names)
  show ?case
  proof (cases "scan_match device build version f \<and> cache_valid w (os_path_join CACHE_DIR f)")
    case True
    with Cons.prems have
      "read_cache_file e (if debug then print w (''[DEBUG] Using fallback cache: '' @ os_path_join CACHE_DIR f) else w)
         (os_path_join CACHE_DIR f) = Inr ((c, Some p), w')"
      by (simp add: Let_def)
    from read_cache_file_debug[OF this] True show ?thesis by auto
  next
    case False
    with Cons.prems have "scan_cache e w device build version debug names = Inr ((c, Some p), w')"
      by (auto simp: Let_def split: if_splits)
    from Cons.IH[OF this] show ?thesis by auto
  qed
qed

lemma scan_cache_None:
  assumes "scan_cache e w device build version debug names = Inr ((c, None), w')"
  shows "c = JNull"
  using assms
proof (induction names)
  case Nil
  then show ?case by simp
next
  case (Cons f names)
  show ?case
  proof (cases "scan_match device build version f \<and> cache_valid w (os_path_join CACHE_DIR f)")
    case True
    with Cons.prems have
      "read_cache_file e (if debug then print w (''[DEBUG] Using fallback cache: '' @ os_path_join CACHE_DIR f) else w)
         (os_path_join CACHE_DIR f) = Inr ((c, None), w')"
      by (simp add: Let_def)
    from read_cache_file_debug[OF this] show ?thesis by simp
  next
    case False
    with Cons.prems have "scan_cache e w device build version debug names = Inr ((c, None), w')"
      by (auto simp: Let_def split: if_splits)
    from Cons.IH[OF this] show ?thesis .
  qed
qed

lemma load_cache_InrD:
  assumes "load_cache e w device build version debug = Inr ((c, Some p), w')"
  shows "cache_valid w p \<and> (\<exists>text t. nodes w p = Some (File text t) \<and> json_load e text = Inr c)"
proof (cases "cache_valid w (cache_path e device (opt_json build) (opt_json version))")
  case True
  with assms have
    "read_cache_file e
       (if debug then print w (''[DEBUG] Using exact cache: '' @ cache_path e device (opt_json build) (opt_json version)) else w)
       (cache_path e device (opt_json build) (opt_json version)) = Inr ((c, Some p), w')"
    by (simp add: load_cache_def Let_def)
  from read_cache_file_debug[OF this] True show ?thesis by auto
next
  case False
  with assms have "scan_cache e w device build version debug (cache_listing w) = Inr ((c, Some p), w')"
    by (simp add: load_cache_def Let_def)
  from scan_cache_InrD[OF this] show ?thesis by blast
qed

lemma load_cache_None:
  assumes "load_cache e w device build version debug = Inr ((c, None), w')"
  shows "c = JNull"
proof (cases "cache_valid w (cache_path e device (opt_json build) (opt_json version))")
  case True
  with assms have
    "read_cache_file e
       (if debug then print w (''[DEBUG] Using exact cache: '' @ cache_path e device (opt_json build) (opt_json version)) else w)
       (cache_path e device (opt_json build) (opt_json version)) = Inr ((c, None), w')"
    by (simp add: load_cache_def Let_def)
  from read_cache_file_debug[OF this] show ?thesis by simp
next
  case False
  with assms have "scan_cache e w device build version debug (cache_listing w) = Inr ((c, None), w')"
    by (simp add: load_cache_def Let_def)
  from scan_cache_None[OF this] show ?thesis .
qed

lemma scan_cache_find:
  "scan_cache e w device build version debug names =
     (case find (\<lambda>f. scan_match device build version f \<and> cache_valid w (os_path_join CACHE_DIR f)) names of
        None \<Rightarrow> Inr ((JNull, None), w)
      | Some f \<Rightarrow>
          read_cache_file e
            (if debug then print w (''[DEBUG] Using fallback cache: '' @ os_path_join CACHE_DIR f) else w)
            (os_path_join CACHE_DIR f))"
  by (induction names) (simp_all add: Let_def)

lemma save_cache_InrD:
  assumes "save_cache e w data device build version = Inr w'"
  shows "nodes w' (cache_path e device build version) = Some (File (json_dump e data) (clock w))"
  using assms
  by (auto simp: save_cache_def open_w_def Let_def split: sum.splits option.splits node.splits if_splits)

lemma load_cache_exact:
  assumes "nodes w p = Some (File text t)" and "clock w - t < CACHE_TTL"
    and "json_load e text = Inr data" and "p = cache_path e device (opt_json build) (opt_json version)"
  shows "load_cache e w device build version debug =
           Inr ((data, Some p), (if debug then print w (''[DEBUG] Using exact cache: '' @ p) else w))"
proof -
  have v: "cache_valid w p" using assms(1,2) by (simp add: cache_valid_def)
  have "read_cache_file e (if debug then print w (''[DEBUG] Using exact cache: '' @ p) else w) p
          = Inr ((data, Some p), (if debug then print w (''[DEBUG] Using exact cache: '' @ p) else w))"
    using assms(1,3) by (simp add: read_cache_file_def open_r_def)
  with v show ?thesis unfolding load_cache_def Let_def assms(4) by simp
qed

text \<open>
  Claim C3. \<open>cache_valid\<close> holds of a path exactly when the path exists and the current
  time minus its modification time is less than seven days (604800 seconds). So
  whatever \<open>load_cache\<close> returns with a path, by the exact match or by the fallback scan,
  is the parsed text of a file at that path whose age is below seven days; and a result
  without a path carries no content.
\<close>

theorem C3_cache_freshness:
  "(cache_valid w path \<longleftrightarrow> (\<exists>n. nodes w path = Some n \<and> clock w - mtime n < 7 * 24 * 60 * 60))
   \<and> (load_cache e w device build version debug = Inr ((content, Some p), w') \<longrightarrow>
        (\<exists>text t. nodes w p = Some (File text t) \<and> json_load e text = Inr content
                  \<and> clock w - t < 7 * 24 * 60 * 60))
   \<and> (load_cache e w device build version debug = Inr ((content, None), w') \<longrightarrow> content = JNull)"
proof (intro conjI impI)
  show "cache_valid w path \<longleftrightarrow> (\<exists>n. nodes w path = Some n \<and> clock w - mtime n < 7 * 24 * 60 * 60)"
    by (rule cache_valid_iff)
next
  assume "load_cache e w device build version debug = Inr ((content, Some p), w')"
  from load_cache_InrD[OF this]
  obtain body t where v: "cache_valid w p" and n: "nodes w p = Some (File body t)"
    and j: "json_load e body = Inr content" by blast
  from v n have "clock w - t < 7 * 24 * 60 * 60" by (simp add: cache_valid_iff)
  with n j show "\<exists>text t. nodes w p = Some (File text t) \<and> json_load e text = Inr content
                  \<and> clock w - t < 7 * 24 * 60 * 60" by blast
next
  assume "load_cache e w device build version debug = Inr ((content, None), w')"
  then show "content = JNull" by (rule load_cache_None)
qed

theorem C3_cache_freshness_witness:
  "load_cache
      \<lparr>py_repr = (\<lambda>x. []), json_dump = (\<lambda>x. ''[]''),
        json_load = (\<lambda>t. if t = ''[]'' then Inr (JArr []) else Inl JSONDecodeError),
        urlopen_json = (\<lambda>u. Inl ''timed out''), can_open_w = (\<lambda>p. True)\<rparr>
      \<lparr>nodes = [''.cache/d_b.json'' \<mapsto> File ''[]'' 100], cache_listing = [''d_b.json''],
        clock = 200, stdout = []\<rparr>
      ''d'' (Some ''b'') None False
     = Inr ((JArr [], Some ''.cache/d_b.json''),
      \<lparr>nodes = [''.cache/d_b.json'' \<mapsto> File ''[]'' 100], cache_listing = [''d_b.json''],
        clock = 200, stdout = []\<rparr>)
   \<and> (\<exists>body t. nodes
      \<lparr>nodes = [''.cache/d_b.json'' \<mapsto> File ''[]'' 100], cache_listing = [''d_b.json''],
        clock = 200, stdout = []\<rparr>
      ''.cache/d_b.json'' = Some (File body t)
        \<and> json_load
      \<lparr>py_repr = (\<lambda>x. []), json_dump = (\<lambda>x. ''[]''),
        json_load = (\<lambda>t. if t = ''[]'' then Inr (JArr []) else Inl JSONDecodeError),
        urlopen_json = (\<lambda>u. Inl ''timed out''), can_open_w = (\<lambda>p. True)\<rparr>
      body = Inr (JArr [])
        \<and> clock
      \<lparr>nodes = [''.cache/d_b.json'' \<mapsto> File ''[]'' 100], cache_listing = [''d_b.json''],
        clock = 200, stdout = []\<rparr>
      - t < 7 * 24 * 60 * 60)"
proof -
  have h: "load_cache
      \<lparr>py_repr = (\<lambda>x. []), json_dump = (\<lambda>x. ''[]''),
        json_load = (\<lambda>t. if t = ''[]'' then Inr (JArr []) else Inl JSONDecodeError),
        urlopen_json = (\<lambda>u. Inl ''timed out''), can_open_w = (\<lambda>p. True)\<rparr>
      \<lparr>nodes = [''.cache/d_b.json'' \<mapsto> File ''[]'' 100], cache_listing = [''d_b.json''],
        clock = 200, stdout = []\<rparr>
      ''d'' (Some ''b'') None False
     = Inr ((JArr [], Some ''.cache/d_b.json''),
      \<lparr>nodes = [''.cache/d_b.json'' \<mapsto> File ''[]'' 100], cache_listing = [''d_b.json''],
        clock = 200, stdout = []\<rparr>)"
    by (simp add: load_cache_def cache_path_def opt_json_def py_str_def os_path_join_def
        CACHE_DIR_def suffix_def cache_valid_def CACHE_TTL_def read_cache_file_def open_r_def
        Let_def)
  show ?thesis
    using h C3_cache_freshness [of
      "\<lparr>nodes = [''.cache/d_b.json'' \<mapsto> File ''[]'' 100], cache_listing = [''d_b.json''],
        clock = 200, stdout = []\<rparr>"
      "''.cache/d_b.json''"
      "\<lparr>py_repr = (\<lambda>x. []), json_dump = (\<lambda>x. ''[]''),
        json_load = (\<lambda>t. if t = ''[]'' then Inr (JArr []) else Inl JSONDecodeError),
        urlopen_json = (\<lambda>u. Inl ''timed out''), can_open_w = (\<lambda>p. True)\<rparr>"
      "''d''" "Some ''b''" None False "JArr []" "''.cache/d_b.json''"
      "\<lparr>nodes = [''.cache/d_b.json'' \<mapsto> File ''[]'' 100], cache_listing = [''d_b.json''],
        clock = 200, stdout = []\<rparr>"]
    by blast
qed

text \<open>
  Claim C4. When \<open>save_cache\<close> has written a value for a triple (the write did not
  raise), the value survives the JSON serialisation (\<open>json_load\<close> of \<open>json_dump\<close> gives
  it back), the file is not touched in between, and \<open>load_cache\<close> is called with the same
  triple less than seven days after the save, then \<open>load_cache\<close> returns that value
  together with the exact path of the triple.
\<close>

theorem C4_save_load_roundtrip:
  assumes "save_cache e w data device (opt_json build) (opt_json version) = Inr w1"
    and "json_load e (json_dump e data) = Inr data"
    and "nodes w2 (cache_path e device (opt_json build) (opt_json version))
           = nodes w1 (cache_path e device (opt_json build) (opt_json version))"
    and "clock w2 - clock w < CACHE_TTL"
  shows "\<exists>w3. load_cache e w2 device build version debug =
           Inr ((data, Some (cache_path e device (opt_json build) (opt_json version))), w3)"
proof -
  from save_cache_InrD[OF assms(1)] assms(3)
  have "nodes w2 (cache_path e device (opt_json build) (opt_json version))
          = Some (File (json_dump e data) (clock w))" by simp
  from load_cache_exact[OF this assms(4) assms(2) refl] show ?thesis by blast
qed

theorem C4_save_load_roundtrip_witness:
  "\<exists>w1 w3.
     save_cache
        \<lparr>py_repr = (\<lambda>x. []), json_dump = (\<lambda>x. ''[]''),
        json_load = (\<lambda>t. if t = ''[]'' then Inr (JArr []) else Inl JSONDecodeError),
        urlopen_json = (\<lambda>u. Inl ''timed out''), can_open_w = (\<lambda>p. True)\<rparr>
        \<lparr>nodes = Map.empty, cache_listing = [], clock = 100, stdout = []\<rparr>
        (JArr []) ''d'' (opt_json (Some ''b'')) (opt_json None) = Inr w1
     \<and> load_cache
        \<lparr>py_repr = (\<lambda>x. []), json_dump = (\<lambda>x. ''[]''),
        json_load = (\<lambda>t. if t = ''[]'' then Inr (JArr []) else Inl JSONDecodeError),
        urlopen_json = (\<lambda>u. Inl ''timed out''), can_open_w = (\<lambda>p. True)\<rparr>
        (w1\<lparr>clock := 500\<rparr>) ''d'' (Some ''b'') None False
       = Inr ((JArr [], Some ''.cache/d_b.json''), w3)"
proof -
  obtain w1 where s: "save_cache
        \<lparr>py_repr = (\<lambda>x. []), json_dump = (\<lambda>x. ''[]''),
        json_load = (\<lambda>t. if t = ''[]'' then Inr (JArr []) else Inl JSONDecodeError),
        urlopen_json = (\<lambda>u. Inl ''timed out''), can_open_w = (\<lambda>p. True)\<rparr>
        \<lparr>nodes = Map.empty, cache_listing = [], clock = 100, stdout = []\<rparr>
        (JArr []) ''d'' (opt_json (Some ''b'')) (opt_json None) = Inr w1"
    by (simp add: save_cache_def open_w_def Let_def)
  have j: "json_load
        \<lparr>py_repr = (\<lambda>x. []), json_dump = (\<lambda>x. ''[]''),
        json_load = (\<lambda>t. if t = ''[]'' then Inr (JArr []) else Inl JSONDecodeError),
        urlopen_json = (\<lambda>u. Inl ''timed out''), can_open_w = (\<lambda>p. True)\<rparr>
        (json_dump
        \<lparr>py_repr = (\<lambda>x. []), json_dump = (\<lambda>x. ''[]''),
        json_load = (\<lambda>t. if t = ''[]'' then Inr (JArr []) else Inl JSONDecodeError),
        urlopen_json = (\<lambda>u. Inl ''timed out''), can_open_w = (\<lambda>p. True)\<rparr>
        (JArr [])) = Inr (JArr [])"
    by simp
  have n: "nodes (w1\<lparr>clock := 500\<rparr>) (cache_path
        \<lparr>py_repr = (\<lambda>x. []), json_dump = (\<lambda>x. ''[]''),
        json_load = (\<lambda>t. if t = ''[]'' then Inr (JArr []) else Inl JSONDecodeError),
        urlopen_json = (\<lambda>u. Inl ''timed out''), can_open_w = (\<lambda>p. True)\<rparr>
        ''d'' (opt_json (Some ''b'')) (opt_json None))
      = nodes w1 (cache_path
        \<lparr>py_repr = (\<lambda>x. []), json_dump = (\<lambda>x. ''[]''),
        json_load = (\<lambda>t. if t = ''[]'' then Inr (JArr []) else Inl JSONDecodeError),
        urlopen_json = (\<lambda>u. Inl ''timed out''), can_open_w = (\<lambda>p. True)\<rparr>
        ''d'' (opt_json (Some ''b'')) (opt_json None))"
    by simp
  have c: "clock (w1\<lparr>clock := 500\<rparr>) - clock
        \<lparr>nodes = Map.empty, cache_listing = [], clock = 100, stdout = []\<rparr>
        < CACHE_TTL"
    by (simp add: CACHE_TTL_def)
  have p: "cache_path
        \<lparr>py_repr = (\<lambda>x. []), json_dump = (\<lambda>x. ''[]''),
        json_load = (\<lambda>t. if t = ''[]'' then Inr (JArr []) else Inl JSONDecodeError),
        urlopen_json = (\<lambda>u. Inl ''timed out''), can_open_w = (\<lambda>p. True)\<rparr>
        ''d'' (opt_json (Some ''b'')) (opt_json None) = ''.cache/d_b.json''"
    by (simp add: cache_path_def opt_json_def py_str_def os_path_join_def CACHE_DIR_def suffix_def)
  from C4_save_load_roundtrip [OF s j n c, of False] p s show ?thesis
    by auto
qed

lemma join_cache_dir_name:
  "os_path_join CACHE_DIR f = (if prefix ''/'' f then f else ''.cache/'' @ f)"
  by (simp add: os_path_join_def CACHE_DIR_def suffix_def)

lemma scan_test_explicit:
  "(scan_match device build version f \<and> cache_valid w (os_path_join CACHE_DIR f))
     = (sublist device f
        \<and> ((case build of None \<Rightarrow> False | Some b \<Rightarrow> b \<noteq> [] \<and> sublist b f)
           \<or> (case version of None \<Rightarrow> False | Some v \<Rightarrow> v \<noteq> [] \<and> sublist v f))
        \<and> (case nodes w (if prefix ''/'' f then f else ''.cache/'' @ f) of
              None \<Rightarrow> False
            | Some n \<Rightarrow> clock w - mtime n < 7 * 24 * 60 * 60))"
  unfolding scan_match_def given_in_def str_in_def cache_valid_def CACHE_TTL_def
    join_cache_dir_name
  by blast

lemma load_cache_fallback:
  assumes "\<not> cache_valid w (cache_path e device (opt_json build) (opt_json version))"
  shows "load_cache e w device build version debug =
        (case find
           (\<lambda>f. sublist device f
                  \<and> ((case build of None \<Rightarrow> False | Some b \<Rightarrow> b \<noteq> [] \<and> sublist b f)
                     \<or> (case version of None \<Rightarrow> False | Some v \<Rightarrow> v \<noteq> [] \<and> sublist v f))
                  \<and> (case nodes w (if prefix ''/'' f then f else ''.cache/'' @ f) of
                        None \<Rightarrow> False
                      | Some n \<Rightarrow> clock w - mtime n < 7 * 24 * 60 * 60))
           (cache_listing w) of
           None \<Rightarrow> Inr ((JNull, None), w)
         | Some f \<Rightarrow>
             read_cache_file e
               (if debug then
                  print w (''[DEBUG] Using fallback cache: ''
                           @ (if prefix ''/'' f then f else ''.cache/'' @ f))
                else w)
               (if prefix ''/'' f then f else ''.cache/'' @ f))"
proof -
  have "load_cache e w device build version debug
          = scan_cache e w device build version debug (cache_listing w)"
    using assms by (simp add: load_cache_def Let_def)
  then have "load_cache e w device build version debug
          = (case find (\<lambda>f. scan_match device build version f
                               \<and> cache_valid w (os_path_join CACHE_DIR f)) (cache_listing w) of
               None \<Rightarrow> Inr ((JNull, None), w)
             | Some f \<Rightarrow>
                 read_cache_file e
                   (if debug then
                      print w (''[DEBUG] Using fallback cache: '' @ os_path_join CACHE_DIR f)
                    else w)
                   (os_path_join CACHE_DIR f))"
    by (simp only: scan_cache_find)
  then show ?thesis
    unfolding scan_test_explicit unfolding join_cache_dir_name .
qed

lemma version_only_paths:
  "cache_path e ''deviceX'' (opt_json None) (opt_json (Some ''1.0'')) = ''.cache/deviceX_1.0.json''"
  by (simp add: cache_path_def opt_json_def py_str_def os_path_join_def CACHE_DIR_def suffix_def)

text \<open>
  Claim C5. When the exact path is missing or not valid, \<open>load_cache\<close> goes through the
  listing of the cache directory in its order and reads the first file that is valid
  (it exists under the cache directory and is less than seven days old) and whose name
  contains the device and, as a substring, the non-empty build or the non-empty version
  that was supplied; without such a file the result is absent. In a cache directory
  that holds only the fresh file \<^verbatim>\<open>deviceX_buildA_1.0.json\<close>, the lookup for
  \<^verbatim>\<open>deviceX\<close> with no build and version \<^verbatim>\<open>1.0\<close> returns the content and the path of
  that file. A file of another device, or of another version, is not returned, and a
  file of another device that comes first in the listing is passed over.
\<close>

theorem C5_fallback_scan:
  "(\<not> cache_valid w (cache_path e device (opt_json build) (opt_json version)) \<longrightarrow>
      load_cache e w device build version debug =
        (case find
           (\<lambda>f. sublist device f
                  \<and> ((case build of None \<Rightarrow> False | Some b \<Rightarrow> b \<noteq> [] \<and> sublist b f)
                     \<or> (case version of None \<Rightarrow> False | Some v \<Rightarrow> v \<noteq> [] \<and> sublist v f))
                  \<and> (case nodes w (if prefix ''/'' f then f else ''.cache/'' @ f) of
                        None \<Rightarrow> False
                      | Some n \<Rightarrow> clock w - mtime n < 7 * 24 * 60 * 60))
           (cache_listing w) of
           None \<Rightarrow> Inr ((JNull, None), w)
         | Some f \<Rightarrow>
             read_cache_file e
               (if debug then
                  print w (''[DEBUG] Using fallback cache: ''
                           @ (if prefix ''/'' f then f else ''.cache/'' @ f))
                else w)
               (if prefix ''/'' f then f else ''.cache/'' @ f)))
   \<and> (nodes w = [''.cache/deviceX_buildA_1.0.json'' \<mapsto> File body t]
        \<and> cache_listing w = [''deviceX_buildA_1.0.json'']
        \<and> clock w - t < 7 * 24 * 60 * 60 \<and> json_load e body = Inr data \<longrightarrow>
      load_cache e w ''deviceX'' None (Some ''1.0'') False =
        Inr ((data, Some ''.cache/deviceX_buildA_1.0.json''), w))
   \<and> (nodes w = [''.cache/deviceY_buildA_1.0.json'' \<mapsto> File body t]
        \<and> cache_listing w = [''deviceY_buildA_1.0.json''] \<longrightarrow>
      load_cache e w ''deviceX'' None (Some ''1.0'') False = Inr ((JNull, None), w))
   \<and> (nodes w = [''.cache/deviceX_buildA_2.0.json'' \<mapsto> File body t]
        \<and> cache_listing w = [''deviceX_buildA_2.0.json''] \<longrightarrow>
      load_cache e w ''deviceX'' None (Some ''1.0'') False = Inr ((JNull, None), w))
   \<and> (nodes w = [''.cache/deviceY_buildA_1.0.json'' \<mapsto> File body' t',
                  ''.cache/deviceX_buildA_1.0.json'' \<mapsto> File body t]
        \<and> cache_listing w = [''deviceY_buildA_1.0.json'', ''deviceX_buildA_1.0.json'']
        \<and> clock w - t < 7 * 24 * 60 * 60 \<and> json_load e body = Inr data \<longrightarrow>
      load_cache e w ''deviceX'' None (Some ''1.0'') False =
        Inr ((data, Some ''.cache/deviceX_buildA_1.0.json''), w))"
proof (intro conjI impI)
  assume "\<not> cache_valid w (cache_path e device (opt_json build) (opt_json version))"
  then show "load_cache e w device build version debug =
        (case find
           (\<lambda>f. sublist device f
                  \<and> ((case build of None \<Rightarrow> False | Some b \<Rightarrow> b \<noteq> [] \<and> sublist b f)
                     \<or> (case version of None \<Rightarrow> False | Some v \<Rightarrow> v \<noteq> [] \<and> sublist v f))
                  \<and> (case nodes w (if prefix ''/'' f then f else ''.cache/'' @ f) of
                        None \<Rightarrow> False
                      | Some n \<Rightarrow> clock w - mtime n < 7 * 24 * 60 * 60))
           (cache_listing w) of
           None \<Rightarrow> Inr ((JNull, None), w)
         | Some f \<Rightarrow>
             read_cache_file e
               (if debug then
                  print w (''[DEBUG] Using fallback cache: ''
                           @ (if prefix ''/'' f then f else ''.cache/'' @ f))
                else w)
               (if prefix ''/'' f then f else ''.cache/'' @ f))"
    by (rule load_cache_fallback)
next
  assume a: "nodes w = [''.cache/deviceX_buildA_1.0.json'' \<mapsto> File body t]
        \<and> cache_listing w = [''deviceX_buildA_1.0.json'']
        \<and> clock w - t < 7 * 24 * 60 * 60 \<and> json_load e body = Inr data"
  have nv: "\<not> cache_valid w (cache_path e ''deviceX'' (opt_json None) (opt_json (Some ''1.0'')))"
    using a by (simp add: version_only_paths cache_valid_def)
  have r: "read_cache_file e w ''.cache/deviceX_buildA_1.0.json''
             = Inr ((data, Some ''.cache/deviceX_buildA_1.0.json''), w)"
    using a by (simp add: read_cache_file_def open_r_def)
  show "load_cache e w ''deviceX'' None (Some ''1.0'') False =
        Inr ((data, Some ''.cache/deviceX_buildA_1.0.json''), w)"
    unfolding load_cache_fallback[OF nv] using a r by (simp add: sublist_code)
next
  assume a: "nodes w = [''.cache/deviceY_buildA_1.0.json'' \<mapsto> File body t]
        \<and> cache_listing w = [''deviceY_buildA_1.0.json'']"
  have nv: "\<not> cache_valid w (cache_path e ''deviceX'' (opt_json None) (opt_json (Some ''1.0'')))"
    using a by (simp add: version_only_paths cache_valid_def)
  show "load_cache e w ''deviceX'' None (Some ''1.0'') False = Inr ((JNull, None), w)"
    unfolding load_cache_fallback[OF nv] using a by (simp add: sublist_code)
next
  assume a: "nodes w = [''.cache/deviceX_buildA_2.0.json'' \<mapsto> File body t]
        \<and> cache_listing w = [''deviceX_buildA_2.0.json'']"
  have nv: "\<not> cache_valid w (cache_path e ''deviceX'' (opt_json None) (opt_json (Some ''1.0'')))"
    using a by (simp add: version_only_paths cache_valid_def)
  show "load_cache e w ''deviceX'' None (Some ''1.0'') False = Inr ((JNull, None), w)"
    unfolding load_cache_fallback[OF nv] using a by (simp add: sublist_code)
next
  assume a: "nodes w = [''.cache/deviceY_buildA_1.0.json'' \<mapsto> File body' t',
                  ''.cache/deviceX_buildA_1.0.json'' \<mapsto> File body t]
        \<and> cache_listing w = [''deviceY_buildA_1.0.json'', ''deviceX_buildA_1.0.json'']
        \<and> clock w - t < 7 * 24 * 60 * 60 \<and> json_load e body = Inr data"
  have nv: "\<not> cache_valid w (cache_path e ''deviceX'' (opt_json None) (opt_json (Some ''1.0'')))"
    using a by (simp add: version_only_paths cache_valid_def)
  have r: "read_cache_file e w ''.cache/deviceX_buildA_1.0.json''
             = Inr ((data, Some ''.cache/deviceX_buildA_1.0.json''), w)"
    using a by (simp add: read_cache_file_def open_r_def)
  show "load_cache e w ''deviceX'' None (Some ''1.0'') False =
        Inr ((data, Some ''.cache/deviceX_buildA_1.0.json''), w)"
    unfolding load_cache_fallback[OF nv] using a r by (simp add: sublist_code)
qed

theorem C5_fallback_scan_witness:
  "\<not> cache_valid
        \<lparr>nodes = [''.cache/deviceX_buildA_1.0.json'' \<mapsto> File ''[]'' 100],
        cache_listing = [''deviceX_buildA_1.0.json''], clock = 200, stdout = []\<rparr>
        (cache_path
        \<lparr>py_repr = (\<lambda>x. []), json_dump = (\<lambda>x. ''[]''),
        json_load = (\<lambda>t. if t = ''[]'' then Inr (JArr []) else Inl JSONDecodeError),
        urlopen_json = (\<lambda>u. Inl ''timed out''), can_open_w = (\<lambda>p. True)\<rparr>
        ''deviceX'' (opt_json None) (opt_json (Some ''1.0'')))
   \<and> find (\<lambda>f. sublist ''deviceX'' f \<and> sublist ''1.0'' f)
        (cache_listing
        \<lparr>nodes = [''.cache/deviceX_buildA_1.0.json'' \<mapsto> File ''[]'' 100],
        cache_listing = [''deviceX_buildA_1.0.json''], clock = 200, stdout = []\<rparr>) = Some ''deviceX_buildA_1.0.json''
   \<and> load_cache
        \<lparr>py_repr = (\<lambda>x. []), json_dump = (\<lambda>x. ''[]''),
        json_load = (\<lambda>t. if t = ''[]'' then Inr (JArr []) else Inl JSONDecodeError),
        urlopen_json = (\<lambda>u. Inl ''timed out''), can_open_w = (\<lambda>p. True)\<rparr>
        \<lparr>nodes = [''.cache/deviceX_buildA_1.0.json'' \<mapsto> File ''[]'' 100],
        cache_listing = [''deviceX_buildA_1.0.json''], clock = 200, stdout = []\<rparr>
        ''deviceX'' None (Some ''1.0'') False
      = Inr ((JArr [], Some ''.cache/deviceX_buildA_1.0.json''),
        \<lparr>nodes = [''.cache/deviceX_buildA_1.0.json'' \<mapsto> File ''[]'' 100],
        cache_listing = [''deviceX_buildA_1.0.json''], clock = 200, stdout = []\<rparr>)"
proof -
  have nv: "\<not> cache_valid
        \<lparr>nodes = [''.cache/deviceX_buildA_1.0.json'' \<mapsto> File ''[]'' 100],
        cache_listing = [''deviceX_buildA_1.0.json''], clock = 200, stdout = []\<rparr>
        (cache_path
        \<lparr>py_repr = (\<lambda>x. []), json_dump = (\<lambda>x. ''[]''),
        json_load = (\<lambda>t. if t = ''[]'' then Inr (JArr []) else Inl JSONDecodeError),
        urlopen_json = (\<lambda>u. Inl ''timed out''), can_open_w = (\<lambda>p. True)\<rparr>
        ''deviceX'' (opt_json None) (opt_json (Some ''1.0'')))"
    by (simp add: version_only_paths cache_valid_def)
  have f: "find (\<lambda>f. sublist ''deviceX'' f \<and> sublist ''1.0'' f)
        (cache_listing
        \<lparr>nodes = [''.cache/deviceX_buildA_1.0.json'' \<mapsto> File ''[]'' 100],
        cache_listing = [''deviceX_buildA_1.0.json''], clock = 200, stdout = []\<rparr>) = Some ''deviceX_buildA_1.0.json''"
    by (simp add: sublist_code)
  have a: "nodes
        \<lparr>nodes = [''.cache/deviceX_buildA_1.0.json'' \<mapsto> File ''[]'' 100],
        cache_listing = [''deviceX_buildA_1.0.json''], clock = 200, stdout = []\<rparr>
        = [''.cache/deviceX_buildA_1.0.json'' \<mapsto> File ''[]'' 100]
      \<and> cache_listing
        \<lparr>nodes = [''.cache/deviceX_buildA_1.0.json'' \<mapsto> File ''[]'' 100],
        cache_listing = [''deviceX_buildA_1.0.json''], clock = 200, stdout = []\<rparr>
        = [''deviceX_buildA_1.0.json'']
      \<and> clock
        \<lparr>nodes = [''.cache/deviceX_buildA_1.0.json'' \<mapsto> File ''[]'' 100],
        cache_listing = [''deviceX_buildA_1.0.json''], clock = 200, stdout = []\<rparr>
        - 100 < 7 * 24 * 60 * 60
      \<and> json_load
        \<lparr>py_repr = (\<lambda>x. []), json_dump = (\<lambda>x. ''[]''),
        json_load = (\<lambda>t. if t = ''[]'' then Inr (JArr []) else Inl JSONDecodeError),
        urlopen_json = (\<lambda>u. Inl ''timed out''), can_open_w = (\<lambda>p. True)\<rparr>
        ''[]'' = Inr (JArr [])"
    by simp
  show ?thesis
    using nv f a C5_fallback_scan [of
        "\<lparr>nodes = [''.cache/deviceX_buildA_1.0.json'' \<mapsto> File ''[]'' 100],
        cache_listing = [''deviceX_buildA_1.0.json''], clock = 200, stdout = []\<rparr>"
        "\<lparr>py_repr = (\<lambda>x. []), json_dump = (\<lambda>x. ''[]''),
        json_load = (\<lambda>t. if t = ''[]'' then Inr (JArr []) else Inl JSONDecodeError),
        urlopen_json = (\<lambda>u. Inl ''timed out''), can_open_w = (\<lambda>p. True)\<rparr>"
        "''deviceX''" None "Some ''1.0''" False "''[]''" 100 "JArr []"]
    by blast
qed

text \<open>
  Claim C9. The file name does not record which identifier is which. For a non-empty
  string \<open>s\<close>, the path for build \<open>s\<close> and no version is the path for no build and
  version \<open>s\<close>; so a value saved under the version-only triple is what the exact match
  of \<open>load_cache\<close> reads when \<open>s\<close> is supplied as the build (within seven days, the file
  untouched, the value surviving serialisation). And build \<^verbatim>\<open>A_B\<close> without version
  has the path of build \<^verbatim>\<open>A\<close> with version \<^verbatim>\<open>B\<close>.
\<close>

theorem C9_roles_collide:
  assumes "s \<noteq> []"
  shows "cache_path e device (JStr s) JNull = cache_path e device JNull (JStr s)
       \<and> cache_path e device (JStr ''A_B'') JNull = cache_path e device (JStr ''A'') (JStr ''B'')
       \<and> (save_cache e w data device (opt_json None) (opt_json (Some s)) = Inr w1
            \<and> json_load e (json_dump e data) = Inr data
            \<and> nodes w2 (cache_path e device JNull (JStr s)) = nodes w1 (cache_path e device JNull (JStr s))
            \<and> clock w2 - clock w < CACHE_TTL \<longrightarrow>
          (\<exists>w3. load_cache e w2 device (Some s) None debug =
                  Inr ((data, Some (cache_path e device JNull (JStr s))), w3)))"
proof (intro conjI impI)
  show r: "cache_path e device (JStr s) JNull = cache_path e device JNull (JStr s)"
    using assms by (simp add: cache_path_def py_str_def)
  show "cache_path e device (JStr ''A_B'') JNull = cache_path e device (JStr ''A'') (JStr ''B'')"
    by (simp add: cache_path_def py_str_def)
  assume a: "save_cache e w data device (opt_json None) (opt_json (Some s)) = Inr w1
            \<and> json_load e (json_dump e data) = Inr data
            \<and> nodes w2 (cache_path e device JNull (JStr s)) = nodes w1 (cache_path e device JNull (JStr s))
            \<and> clock w2 - clock w < CACHE_TTL"
  then have "nodes w1 (cache_path e device JNull (JStr s)) = Some (File (json_dump e data) (clock w))"
    using save_cache_InrD[of e w data device "opt_json None" "opt_json (Some s)" w1]
    by (simp add: opt_json_simps)
  with a have n: "nodes w2 (cache_path e device JNull (JStr s)) = Some (File (json_dump e data) (clock w))"
    by simp
  have p: "cache_path e device JNull (JStr s) = cache_path e device (opt_json (Some s)) (opt_json None)"
    using r by (simp add: opt_json_simps)
  from load_cache_exact[OF n _ _ p, of data debug] a
  show "\<exists>w3. load_cache e w2 device (Some s) None debug =
                  Inr ((data, Some (cache_path e device JNull (JStr s))), w3)"
    by blast
qed

theorem C9_roles_collide_witness:
  "\<exists>w1 w3.
     save_cache
        \<lparr>py_repr = (\<lambda>x. []), json_dump = (\<lambda>x. ''[]''),
        json_load = (\<lambda>t. if t = ''[]'' then Inr (JArr []) else Inl JSONDecodeError),
        urlopen_json = (\<lambda>u. Inl ''timed out''), can_open_w = (\<lambda>p. True)\<rparr>
        \<lparr>nodes = Map.empty, cache_listing = [], clock = 100, stdout = []\<rparr>
        (JArr []) ''d'' (opt_json None) (opt_json (Some ''15.0'')) = Inr w1
     \<and> load_cache
        \<lparr>py_repr = (\<lambda>x. []), json_dump = (\<lambda>x. ''[]''),
        json_load = (\<lambda>t. if t = ''[]'' then Inr (JArr []) else Inl JSONDecodeError),
        urlopen_json = (\<lambda>u. Inl ''timed out''), can_open_w = (\<lambda>p. True)\<rparr>
        (w1\<lparr>clock := 500\<rparr>) ''d'' (Some ''15.0'') None False
       = Inr ((JArr [], Some ''.cache/d_15.0.json''), w3)"
proof -
  have ne: "''15.0'' \<noteq> []" by simp
  obtain w1 where s: "save_cache
        \<lparr>py_repr = (\<lambda>x. []), json_dump = (\<lambda>x. ''[]''),
        json_load = (\<lambda>t. if t = ''[]'' then Inr (JArr []) else Inl JSONDecodeError),
        urlopen_json = (\<lambda>u. Inl ''timed out''), can_open_w = (\<lambda>p. True)\<rparr>
        \<lparr>nodes = Map.empty, cache_listing = [], clock = 100, stdout = []\<rparr>
        (JArr []) ''d'' (opt_json None) (opt_json (Some ''15.0'')) = Inr w1"
    by (simp add: save_cache_def open_w_def Let_def)
  have j: "json_load
        \<lparr>py_repr = (\<lambda>x. []), json_dump = (\<lambda>x. ''[]''),
        json_load = (\<lambda>t. if t = ''[]'' then Inr (JArr []) else Inl JSONDecodeError),
        urlopen_json = (\<lambda>u. Inl ''timed out''), can_open_w = (\<lambda>p. True)\<rparr>
        (json_dump
        \<lparr>py_repr = (\<lambda>x. []), json_dump = (\<lambda>x. ''[]''),
        json_load = (\<lambda>t. if t = ''[]'' then Inr (JArr []) else Inl JSONDecodeError),
        urlopen_json = (\<lambda>u. Inl ''timed out''), can_open_w = (\<lambda>p. True)\<rparr>
        (JArr [])) = Inr (JArr [])"
    by simp
  have c: "clock (w1\<lparr>clock := 500\<rparr>) - clock
        \<lparr>nodes = Map.empty, cache_listing = [], clock = 100, stdout = []\<rparr>
        < CACHE_TTL"
    by (simp add: CACHE_TTL_def)
  have p: "cache_path
        \<lparr>py_repr = (\<lambda>x. []), json_dump = (\<lambda>x. ''[]''),
        json_load = (\<lambda>t. if t = ''[]'' then Inr (JArr []) else Inl JSONDecodeError),
        urlopen_json = (\<lambda>u. Inl ''timed out''), can_open_w = (\<lambda>p. True)\<rparr>
        ''d'' JNull (JStr ''15.0'') = ''.cache/d_15.0.json''"
    by (simp add: cache_path_def py_str_def os_path_join_def CACHE_DIR_def suffix_def)
  show ?thesis
    using C9_roles_collide [OF ne, of
        "\<lparr>py_repr = (\<lambda>x. []), json_dump = (\<lambda>x. ''[]''),
        json_load = (\<lambda>t. if t = ''[]'' then Inr (JArr []) else Inl JSONDecodeError),
        urlopen_json = (\<lambda>u. Inl ''timed out''), can_open_w = (\<lambda>p. True)\<rparr>"
        "''d''"
        "\<lparr>nodes = Map.empty, cache_listing = [], clock = 100, stdout = []\<rparr>"
        "JArr []" w1 "w1\<lparr>clock := 500\<rparr>" False] s j c p
    by auto
qed

section \<open>Properties of the client, the workflow and bulk mode\<close>

lemma bulk_entry_example:
  "bulk_entry ''iPhone9,3,,19H370'' = Inr (''iPhone9'', Some ''3'', None)"
  by (simp add: bulk_entry_def py_split.simps)

lemma fetch_keys_total:
  "\<exists>keys w'. fetch_keys e w device build update verbose = Inr (keys, w')
      \<and> nodes w' = nodes w \<and> cache_listing w' = cache_listing w
      \<and> (keys = JNull \<or> (\<exists>kvs. kvs \<noteq> [] \<and> keys = JObj kvs))"
  by (cases "urlopen_json e (fetch_keys_url e device build update)")
     (auto simp: fetch_keys_def Let_def nonempty_dict_or_none_def split: json.splits)

lemma load_cache_world:
  assumes "load_cache e w device build version debug = Inr (r, w1)"
  shows "nodes w1 = nodes w \<and> cache_listing w1 = cache_listing w"
proof -
  have rd: "\<And>w0 p. read_cache_file e w0 p = Inr (r, w1) \<Longrightarrow> w1 = w0"
    by (auto simp: read_cache_file_def split: sum.splits)
  have sc: "\<And>names. scan_cache e w device build version debug names = Inr (r, w1)
              \<Longrightarrow> nodes w1 = nodes w \<and> cache_listing w1 = cache_listing w"
  proof -
    fix names
    show "scan_cache e w device build version debug names = Inr (r, w1)
              \<Longrightarrow> nodes w1 = nodes w \<and> cache_listing w1 = cache_listing w"
      by (induction names) (auto simp: Let_def split: if_splits dest!: rd)
  qed
  show ?thesis
    using assms sc by (auto simp: load_cache_def Let_def split: if_splits dest!: rd)
qed

lemma discover_world:
  assumes "discover_update_line e w device version build verbose = Inr (r, w1)"
  shows "nodes w1 = nodes w \<and> cache_listing w1 = cache_listing w"
  using assms
  by (auto simp: discover_update_line_def Let_def then_do_def
      split: sum.splits if_splits option.splits prod.splits)

lemma polite_delay_world:
  "nodes (polite_delay w debug) = nodes w \<and> cache_listing (polite_delay w debug) = cache_listing w"
  by (simp add: polite_delay_def Let_def)

text \<open>
  Claim C1 states that the bulk entry \<^verbatim>\<open>iPhone9,3,,19H370\<close> is read as device
  \<^verbatim>\<open>iPhone9,3\<close>, no version, build \<^verbatim>\<open>19H370\<close>. The loop cuts the entry at every
  comma, so the device is \<^verbatim>\<open>iPhone9\<close>, the version \<^verbatim>\<open>3\<close> and the build absent (the
  third part is empty); the entry is not skipped, and the resolution that is attempted
  is the one for device \<^verbatim>\<open>iPhone9\<close> with version \<^verbatim>\<open>3\<close> and no build.
\<close>

theorem C1_bulk_entry_cuts_device:
  "bulk_entry ''iPhone9,3,,19H370'' = Inr (''iPhone9'', Some ''3'', None)
   \<and> bulk_loop e w debug [''iPhone9,3,,19H370''] =
       (case fetch_firmware_keys e w ''iPhone9'' (Some ''3'') None debug of
          Inl x \<Rightarrow> Inl x
        | Inr (r, w') \<Rightarrow> Inr w')"
  by (simp add: bulk_entry_example given_def split: sum.splits)

text \<open>
  Claim C2 states that no response makes the two client calls raise. When the
  discovery request is answered by the JSON text \<^verbatim>\<open>[]\<close>, the guarded block ends
  normally with the empty list, and \<^verbatim>\<open>data.get\<close>, called after the block, raises
  \<^verbatim>\<open>AttributeError\<close>, which leaves \<open>discover_update_line\<close>. (\<open>fetch_keys\<close> tests the
  type of the response and never raises: \<open>fetch_keys_total\<close>.)
\<close>

theorem C2_discovery_raises:
  "discover_update_line (e\<lparr>urlopen_json := (\<lambda>url. Inr (JArr []))\<rparr>) w device version build verbose
     = Inl AttributeError"
  by (simp add: discover_update_line_def Let_def py_get_def then_do_def)

text \<open>
  Claim C8. On a cache miss, when discovery returns no update line, or when the key
  fetch that follows the pause returns an absent or empty result, \<open>fetch_firmware_keys\<close>
  returns (absent, absent), and the files and the listing of the cache directory are
  what they were before the call: nothing was written to the cache or to the output
  file.
\<close>

theorem C8_failed_resolution_writes_nothing:
  assumes miss: "load_cache e w device build version debug = Inr ((cached, cache_file), w1)"
      "\<not> truthy cached"
    and disc: "discover_update_line e w1 device version build debug
                 = Inr ((update_line, discovered_build, discovered_version), w2)"
    and fail: "\<not> truthy update_line
               \<or> (\<exists>keys w5.
                    fetch_keys e (polite_delay w2 debug) device
                      (if given build then opt_json build else discovered_build)
                      update_line debug = Inr (keys, w5)
                    \<and> \<not> truthy keys)"
  shows "\<exists>w'. fetch_firmware_keys e w device version build debug = Inr ((JNull, None), w')
           \<and> nodes w' = nodes w \<and> cache_listing w' = cache_listing w"
proof -
  have n1: "nodes w1 = nodes w \<and> cache_listing w1 = cache_listing w"
    using load_cache_world[OF miss(1)] .
  have n2: "nodes w2 = nodes w \<and> cache_listing w2 = cache_listing w"
    using discover_world[OF disc] n1 by simp
  show ?thesis
  proof (cases "truthy update_line")
    case False
    then have "fetch_firmware_keys e w device version build debug
                = Inr ((JNull, None), print w2 (''[-] Failed to discover update line for '' @ device))"
      using miss disc by (simp add: fetch_firmware_keys_def)
    then show ?thesis using n2 by simp
  next
    case True
    with fail obtain keys w5 where
      fk: "fetch_keys e (polite_delay w2 debug) device
             (if given build then opt_json build else discovered_build) update_line debug
           = Inr (keys, w5)" and nk: "\<not> truthy keys" by blast
    from fetch_keys_total[of e "polite_delay w2 debug" device
           "if given build then opt_json build else discovered_build" update_line debug] fk
    have n5: "nodes w5 = nodes w \<and> cache_listing w5 = cache_listing w"
      using polite_delay_world[of w2 debug] n2 by auto
    have "fetch_firmware_keys e w device version build debug
            = Inr ((JNull, None),
                print w5 (''[-] Failed to fetch keys for '' @ device @ '' ''
                  @ py_str e (if given build then opt_json build else discovered_build)))"
      using miss disc True fk nk by (simp add: fetch_firmware_keys_def Let_def)
    then show ?thesis using n5 by simp
  qed
qed

theorem C8_failed_resolution_writes_nothing_witness:
  "\<exists>w'. fetch_firmware_keys
        \<lparr>py_repr = (\<lambda>x. []), json_dump = (\<lambda>x. ''[]''),
        json_load = (\<lambda>t. if t = ''[]'' then Inr (JArr []) else Inl JSONDecodeError),
        urlopen_json =
          (\<lambda>u. if prefix ''https://theapplewiki.com/wiki/Special:Ask/-5B-5B-3AKeys'' u
               then Inr (JObj [(''results'',
                      JObj [(''Keys:18A373 18A373 (iPhoneX,1)'',
                        JObj [(''printouts'', JObj [(''build'', JArr [JStr ''18A373''])])])])])
               else Inl ''timed out''),
        can_open_w = (\<lambda>p. True)\<rparr>
        \<lparr>nodes = Map.empty, cache_listing = [], clock = 100, stdout = []\<rparr>
        ''iPhoneX,1'' None (Some ''18A373'') False = Inr ((JNull, None), w')
     \<and> nodes w' = nodes
        \<lparr>nodes = Map.empty, cache_listing = [], clock = 100, stdout = []\<rparr>
     \<and> cache_listing w' = cache_listing
        \<lparr>nodes = Map.empty, cache_listing = [], clock = 100, stdout = []\<rparr>"
proof -
  have miss: "load_cache
        \<lparr>py_repr = (\<lambda>x. []), json_dump = (\<lambda>x. ''[]''),
        json_load = (\<lambda>t. if t = ''[]'' then Inr (JArr []) else Inl JSONDecodeError),
        urlopen_json =
          (\<lambda>u. if prefix ''https://theapplewiki.com/wiki/Special:Ask/-5B-5B-3AKeys'' u
               then Inr (JObj [(''results'',
                      JObj [(''Keys:18A373 18A373 (iPhoneX,1)'',
                        JObj [(''printouts'', JObj [(''build'', JArr [JStr ''18A373''])])])])])
               else Inl ''timed out''),
        can_open_w = (\<lambda>p. True)\<rparr>
        \<lparr>nodes = Map.empty, cache_listing = [], clock = 100, stdout = []\<rparr>
        ''iPhoneX,1'' (Some ''18A373'') None False
      = Inr ((JNull, None),
        \<lparr>nodes = Map.empty, cache_listing = [], clock = 100, stdout = []\<rparr>)"
    by (simp add: load_cache_def Let_def cache_valid_def)
  have nt: "\<not> truthy JNull" by simp
  have url: "prefix ''https://theapplewiki.com/wiki/Special:Ask/-5B-5B-3AKeys''
               (discovery_url ''iPhoneX,1'' None (Some ''18A373''))"
    by (simp add: discovery_url_def discovery_query_def BASE_def smw_path_escape_chars
        spec_escape_char_def)
  have disc: "discover_update_line
        \<lparr>py_repr = (\<lambda>x. []), json_dump = (\<lambda>x. ''[]''),
        json_load = (\<lambda>t. if t = ''[]'' then Inr (JArr []) else Inl JSONDecodeError),
        urlopen_json =
          (\<lambda>u. if prefix ''https://theapplewiki.com/wiki/Special:Ask/-5B-5B-3AKeys'' u
               then Inr (JObj [(''results'',
                      JObj [(''Keys:18A373 18A373 (iPhoneX,1)'',
                        JObj [(''printouts'', JObj [(''build'', JArr [JStr ''18A373''])])])])])
               else Inl ''timed out''),
        can_open_w = (\<lambda>p. True)\<rparr>
        \<lparr>nodes = Map.empty, cache_listing = [], clock = 100, stdout = []\<rparr>
        ''iPhoneX,1'' None (Some ''18A373'') False
      = Inr ((JStr ''18A373'', JStr ''18A373'', JNull),
        \<lparr>nodes = Map.empty, cache_listing = [], clock = 100, stdout = []\<rparr>)"
    using url
    by (simp add: discover_update_line_def Let_def then_do_def py_get_def py_items_def
        discover_entry_def py_split1_def printout_def py_contains_def py_getitem_def
        py_first_def py_split.simps)
  have nurl: "\<not> prefix ''https://theapplewiki.com/wiki/Special:Ask/-5B-5B-3AKeys''
               (fetch_keys_url
        \<lparr>py_repr = (\<lambda>x. []), json_dump = (\<lambda>x. ''[]''),
        json_load = (\<lambda>t. if t = ''[]'' then Inr (JArr []) else Inl JSONDecodeError),
        urlopen_json =
          (\<lambda>u. if prefix ''https://theapplewiki.com/wiki/Special:Ask/-5B-5B-3AKeys'' u
               then Inr (JObj [(''results'',
                      JObj [(''Keys:18A373 18A373 (iPhoneX,1)'',
                        JObj [(''printouts'', JObj [(''build'', JArr [JStr ''18A373''])])])])])
               else Inl ''timed out''),
        can_open_w = (\<lambda>p. True)\<rparr>
        ''iPhoneX,1'' (JStr ''18A373'') (JStr ''18A373''))"
    by (simp add: fetch_keys_url_def BASE_def)
  have fk: "\<exists>keys w5. fetch_keys
        \<lparr>py_repr = (\<lambda>x. []), json_dump = (\<lambda>x. ''[]''),
        json_load = (\<lambda>t. if t = ''[]'' then Inr (JArr []) else Inl JSONDecodeError),
        urlopen_json =
          (\<lambda>u. if prefix ''https://theapplewiki.com/wiki/Special:Ask/-5B-5B-3AKeys'' u
               then Inr (JObj [(''results'',
                      JObj [(''Keys:18A373 18A373 (iPhoneX,1)'',
                        JObj [(''printouts'', JObj [(''build'', JArr [JStr ''18A373''])])])])])
               else Inl ''timed out''),
        can_open_w = (\<lambda>p. True)\<rparr>
        (polite_delay
        \<lparr>nodes = Map.empty, cache_listing = [], clock = 100, stdout = []\<rparr>
        False) ''iPhoneX,1''
        (if given (Some ''18A373'') then opt_json (Some ''18A373'') else JStr ''18A373'')
        (JStr ''18A373'') False = Inr (keys, w5) \<and> \<not> truthy keys"
    using nurl by (simp add: fetch_keys_def Let_def given_def opt_json_def)
  show ?thesis
    using C8_failed_resolution_writes_nothing [OF miss nt disc] fk by blast
qed

end
